theory Spec2Isabelle
  imports Complex_Main "HOL-Library.Sublist" "HOL-Library.Multiset"
begin

section \<open>Data model\<close>

text \<open>
  The application keeps two collections in memory: \<open>allClients\<close> (the roster, loaded
  once from \<open>clientes.json\<close>) and \<open>allTransactions\<close> (the store, mirrored to
  localStorage). A number is a finite double, modelled by the real number it stands for.
  A string is a list of characters with the codes 0 to 255 (Latin-1), which holds the
  letters of Portuguese; a character with a higher code cannot be written in the model.
\<close>

record endereco =
  logouro :: string
  numero :: string
  bairro :: string
  cidade :: string
  estado :: string

text \<open>
  A client of the roster. The field \<open>id\<close> of the source is \<open>id_client\<close> here
  (\<open>id\<close> is the identity function of HOL). \<open>comissaoPct\<close> may be absent
  (\<open>undefined\<close> in the source), which is \<open>None\<close>.
\<close>

record client =
  id_client :: string
  nome :: string
  empresa :: string
  celular :: string
  vendedor :: string
  bandeira :: string
  senha :: string
  comissaoPct :: "real option"
  enderecoCompleto :: endereco

text \<open>
  A transaction of the store, as \<open>addTransaction\<close> builds it. The field \<open>id\<close> of
  the source is \<open>id_trans\<close> here. \<open>tipo\<close> is a string: the source compares it with
  \<open>'entrada'\<close> and \<open>'saida'\<close> and any other text can stand there.
\<close>

record transaction =
  id_trans :: string
  clienteId :: string
  tipo :: string
  valor :: real
  data :: string

section \<open>Numbers\<close>

text \<open>
  The sum and the difference of two doubles are the exact result rounded to the nearest
  double, ties to the even one. A double has 53 significant bits; below \<open>2^-1022\<close>
  the spacing stays \<open>2^-1074\<close>. \<open>bits n\<close> is the length of \<open>n\<close> in binary,
  \<open>expo x\<close> the exponent of the leading bit of \<open>x\<close>, \<open>ulp x\<close> the spacing of
  the doubles around \<open>x\<close>. NaN and the infinities are outside the model: a result
  of magnitude \<open>2^1024\<close> or more is Infinity in the code and a finite number here.
\<close>

fun bits :: "nat \<Rightarrow> nat" where
  "bits n = (if n = 0 then 0 else Suc (bits (n div 2)))"

declare bits.simps [simp del]

definition expo :: "real \<Rightarrow> int" where
  "expo x =
     (if 1 \<le> \<bar>x\<bar> then int (bits (nat \<lfloor>\<bar>x\<bar>\<rfloor>)) - 1
      else - int (bits (nat (\<lceil>1 / \<bar>x\<bar>\<rceil> - 1))))"

definition pow2 :: "int \<Rightarrow> real" where
  "pow2 k = (if 0 \<le> k then 2 ^ nat k else 1 / 2 ^ nat (- k))"

definition ulp :: "real \<Rightarrow> real" where
  "ulp x = pow2 (max (expo x) (- 1022) - 52)"

definition round_even :: "real \<Rightarrow> int" where
  "round_even q =
     (let f = \<lfloor>q\<rfloor>; r = q - of_int f
      in if r < 1 / 2 then f else if 1 / 2 < r then f + 1 else if even f then f else f + 1)"

definition round_double :: "real \<Rightarrow> real" where
  "round_double x = (if x = 0 then 0 else of_int (round_even (x / ulp x)) * ulp x)"

text \<open>\<open>a + b\<close> and \<open>a - b\<close> on numbers.\<close>

definition js_add :: "real \<Rightarrow> real \<Rightarrow> real" where
  "js_add a b = round_double (a + b)"

definition js_sub :: "real \<Rightarrow> real \<Rightarrow> real" where
  "js_sub a b = round_double (a - b)"

section \<open>Balance of a client\<close>

text \<open>\<open>allTransactions.filter(t => t.clienteId === clientId)\<close>\<close>

definition getTransactionsForClient :: "transaction list \<Rightarrow> string \<Rightarrow> transaction list" where
  "getTransactionsForClient allTransactions clientId =
     filter (\<lambda>t. clienteId t = clientId) allTransactions"

text \<open>
  The callback of the \<open>reduce\<close> in \<open>calculateClientBalance\<close>. The balance decides
  what the balance filter lists (it is compared with 0, 500, 501 and 1000), so every
  step is rounded as the code rounds it.
\<close>

definition balance_step :: "real \<Rightarrow> transaction \<Rightarrow> real" where
  "balance_step acc t =
     (if tipo t = ''entrada'' then js_add acc (valor t)
      else if tipo t = ''saida'' then js_sub acc (valor t)
      else acc)"

text \<open>\<open>clientTransactions.reduce(..., 0)\<close>: a left fold from 0.\<close>

definition calculateClientBalance :: "transaction list \<Rightarrow> string \<Rightarrow> real" where
  "calculateClientBalance allTransactions clientId =
     foldl balance_step 0 (getTransactionsForClient allTransactions clientId)"

section \<open>Dates\<close>

text \<open>
  \<open>Date\<close> belongs to the JavaScript runtime, not to the repository. A \<open>Date\<close>
  object is modelled by its time value in milliseconds; \<open>None\<close> is the Invalid Date,
  whose time value is NaN. \<open>Date_new\<close> reads the date-time format
  \<open>YYYY-MM-DDTHH:mm:ss\<close> of the language standard, which has no time zone and is
  therefore local time; every other text is the Invalid Date here (an engine may read
  further forms; the properties below are about texts of this form). The local time zone
  is taken to be a fixed offset, here 0: another offset moves every time value by the
  same amount and changes no comparison and no difference.
\<close>

type_synonym Date = "int option"

definition digit :: "char \<Rightarrow> nat option" where
  "digit c = (let n = (of_char c :: nat) in if 48 \<le> n \<and> n \<le> 57 then Some (n - 48) else None)"

fun number_from :: "nat \<Rightarrow> string \<Rightarrow> nat option" where
  "number_from acc [] = Some acc"
| "number_from acc (c # cs) =
     (case digit c of None \<Rightarrow> None | Some d \<Rightarrow> number_from (10 * acc + d) cs)"

definition number :: "string \<Rightarrow> nat option" where
  "number s = number_from 0 s"

definition is_leap :: "nat \<Rightarrow> bool" where
  "is_leap y = ((y mod 4 = 0 \<and> y mod 100 \<noteq> 0) \<or> y mod 400 = 0)"

definition days_in_month :: "nat \<Rightarrow> nat \<Rightarrow> nat" where
  "days_in_month y m =
     (if m = 2 then (if is_leap y then 29 else 28)
      else if m = 4 \<or> m = 6 \<or> m = 9 \<or> m = 11 then 30
      else 31)"

text \<open>Days from 1 January of year 0 to 1 January of year \<open>y\<close>.\<close>

definition days_before_year :: "nat \<Rightarrow> nat" where
  "days_before_year y = 365 * y + (y + 3) div 4 - (y + 99) div 100 + (y + 399) div 400"

text \<open>Days from 1 January of year \<open>y\<close> to the first day of its month \<open>m\<close>.\<close>

definition days_before_month :: "nat \<Rightarrow> nat \<Rightarrow> nat" where
  "days_before_month y m = sum_list (map (days_in_month y) [1..<m])"

text \<open>The day number of a calendar day, counted from 1 January 1970.\<close>

definition day_number :: "nat \<Rightarrow> nat \<Rightarrow> nat \<Rightarrow> int" where
  "day_number y m d =
     int (days_before_year y + days_before_month y m + (d - 1)) - 719528"

definition Date_new :: "string \<Rightarrow> Date" where
  "Date_new s =
     (if length s = 19 \<and> s ! 4 = CHR ''-'' \<and> s ! 7 = CHR ''-'' \<and> s ! 10 = CHR ''T''
         \<and> s ! 13 = CHR '':'' \<and> s ! 16 = CHR '':''
      then
        (case (number (take 4 s), number (take 2 (drop 5 s)), number (take 2 (drop 8 s)),
               number (take 2 (drop 11 s)), number (take 2 (drop 14 s)),
               number (take 2 (drop 17 s))) of
           (Some y, Some m, Some d, Some h, Some mi, Some sec) \<Rightarrow>
             if 1 \<le> m \<and> m \<le> 12 \<and> 1 \<le> d \<and> d \<le> days_in_month y m
                \<and> h \<le> 23 \<and> mi \<le> 59 \<and> sec \<le> 59
             then Some (((day_number y m d * 24 + int h) * 60 + int mi) * 60000 + int sec * 1000)
             else None
         | _ \<Rightarrow> None)
      else None)"

text \<open>\<open>new Date(dateString + 'T00:00:00')\<close>\<close>

definition parseDate :: "string \<Rightarrow> Date" where
  "parseDate dateString = Date_new (dateString @ ''T00:00:00'')"

text \<open>
  \<open>a < b\<close> and \<open>a > b\<close> on two \<open>Date\<close> objects compare the time values as
  numbers; a comparison with NaN is false. \<open>a - b\<close> is the difference of the time
  values, NaN (\<open>None\<close>) when one of them is.
\<close>

definition Date_lt :: "Date \<Rightarrow> Date \<Rightarrow> bool" where
  "Date_lt a b = (case (a, b) of (Some x, Some y) \<Rightarrow> x < y | _ \<Rightarrow> False)"

definition Date_gt :: "Date \<Rightarrow> Date \<Rightarrow> bool" where
  "Date_gt a b = (case (a, b) of (Some x, Some y) \<Rightarrow> x > y | _ \<Rightarrow> False)"

definition Date_minus :: "Date \<Rightarrow> Date \<Rightarrow> int option" where
  "Date_minus a b = (case (a, b) of (Some x, Some y) \<Rightarrow> Some (x - y) | _ \<Rightarrow> None)"

section \<open>Dashboard statistics\<close>

text \<open>
  The four figures of the dashboard are only displayed, cut to two decimals
  (\<open>formatCurrency\<close>, \<open>toFixed(2)\<close>), and never compared. Their arithmetic is exact
  here: the rounding of each step, of the order of \<open>2^-52\<close> of the running total, is
  left out.
\<close>

record dashboard_stats =
  totalClientes :: nat
  saldoTotal :: real
  comissaoTotalValor :: real
  comissaoMediaPct :: real

text \<open>\<open>c.comissaoPct || 0\<close>: an absent or zero percentage gives 0.\<close>

definition comissaoPct_or_0 :: "client \<Rightarrow> real" where
  "comissaoPct_or_0 c = (case comissaoPct c of None \<Rightarrow> 0 | Some p \<Rightarrow> if p \<noteq> 0 then p else 0)"

text \<open>
  \<open>startDate ? parseDate(startDate) : null\<close>. The argument is a string or
  \<open>null\<close> (\<open>None\<close>); \<open>null\<close> and the empty string are falsy.
\<close>

definition date_bound :: "string option \<Rightarrow> Date option" where
  "date_bound d =
     (case d of None \<Rightarrow> None | Some s \<Rightarrow> if s \<noteq> [] then Some (parseDate s) else None)"

text \<open>
  The callback of \<open>allTransactions.filter\<close>. A \<open>Date\<close> object is truthy, the
  Invalid Date too, so \<open>start && transDate < start\<close> is the comparison whenever
  \<open>start\<close> is not \<open>null\<close>.
\<close>

definition in_period :: "Date option \<Rightarrow> Date option \<Rightarrow> transaction \<Rightarrow> bool" where
  "in_period start_d end_d t =
     (let transDate = parseDate (data t) in
      if (case start_d of None \<Rightarrow> False | Some s \<Rightarrow> Date_lt transDate s) then False
      else if (case end_d of None \<Rightarrow> False | Some e \<Rightarrow> Date_gt transDate e) then False
      else True)"

definition filteredTransactions ::
  "transaction list \<Rightarrow> string option \<Rightarrow> string option \<Rightarrow> transaction list" where
  "filteredTransactions allTransactions startDate endDate =
     filter (in_period (date_bound startDate) (date_bound endDate)) allTransactions"

text \<open>
  The body of the \<open>for\<close> loop over the filtered transactions; the pair is
  (\<open>saldoTotal\<close>, \<open>comissaoTotalValor\<close>). \<open>client && client.comissaoPct\<close> holds
  when the client is found and its percentage is present and not zero.
\<close>

definition stats_step :: "client list \<Rightarrow> real \<times> real \<Rightarrow> transaction \<Rightarrow> real \<times> real" where
  "stats_step allClients acc t =
     (case acc of (st, ct) \<Rightarrow>
        if tipo t = ''entrada'' then
          (st + valor t,
           (case find (\<lambda>c. id_client c = clienteId t) allClients of
              None \<Rightarrow> ct
            | Some c \<Rightarrow>
                (case comissaoPct c of
                   None \<Rightarrow> ct
                 | Some p \<Rightarrow> if p \<noteq> 0 then ct + valor t * (p / 100) else ct)))
        else if tipo t = ''saida'' then (st - valor t, ct)
        else (st, ct))"

definition calculateDashboardStats ::
  "client list \<Rightarrow> transaction list \<Rightarrow> string option \<Rightarrow> string option \<Rightarrow> dashboard_stats" where
  "calculateDashboardStats allClients allTransactions startDate endDate =
     (let n = length allClients;
          totalComissaoPct =
            (if n > 0 then foldl (\<lambda>acc c. acc + comissaoPct_or_0 c) 0 allClients else 0);
          media = (if n > 0 then totalComissaoPct / real n else 0);
          totals = foldl (stats_step allClients) (0, 0)
                     (filteredTransactions allTransactions startDate endDate)
      in \<lparr>totalClientes = n, saldoTotal = fst totals, comissaoTotalValor = snd totals,
          comissaoMediaPct = media\<rparr>)"

section \<open>The per-client list of recent transactions\<close>

text \<open>
  \<open>Array.prototype.sort\<close> with a comparison function belongs to the runtime. It is
  stable, and for a consistent comparison function its result is the one of any stable
  sort; it is modelled by a stable insertion sort. The comparison function returns a
  number; NaN (\<open>None\<close>) counts as 0, as the language standard says.
\<close>

fun insert_sorted :: "('a \<Rightarrow> 'a \<Rightarrow> int option) \<Rightarrow> 'a \<Rightarrow> 'a list \<Rightarrow> 'a list" where
  "insert_sorted cmp x [] = [x]"
| "insert_sorted cmp x (y # ys) =
     (if (case cmp x y of None \<Rightarrow> True | Some v \<Rightarrow> v \<le> 0) then x # y # ys
      else y # insert_sorted cmp x ys)"

definition Array_sort :: "('a \<Rightarrow> 'a \<Rightarrow> int option) \<Rightarrow> 'a list \<Rightarrow> 'a list" where
  "Array_sort cmp xs = foldr (insert_sorted cmp) xs []"

text \<open>\<open>(a, b) => parseDate(b.data) - parseDate(a.data)\<close>\<close>

definition mais_recentes_primeiro :: "transaction \<Rightarrow> transaction \<Rightarrow> int option" where
  "mais_recentes_primeiro a b = Date_minus (parseDate (data b)) (parseDate (data a))"

text \<open>
  The three lists \<open>renderClientCard\<close> computes for a client: its transactions, most
  recent first, and the first four of each kind.
\<close>

definition clientTransactions :: "transaction list \<Rightarrow> string \<Rightarrow> transaction list" where
  "clientTransactions allTransactions clientId =
     Array_sort mais_recentes_primeiro (getTransactionsForClient allTransactions clientId)"

definition entradas :: "transaction list \<Rightarrow> string \<Rightarrow> transaction list" where
  "entradas allTransactions clientId =
     take 4 (filter (\<lambda>t. tipo t = ''entrada'') (clientTransactions allTransactions clientId))"

definition saidas :: "transaction list \<Rightarrow> string \<Rightarrow> transaction list" where
  "saidas allTransactions clientId =
     take 4 (filter (\<lambda>t. tipo t = ''saida'') (clientTransactions allTransactions clientId))"

section \<open>Search and balance filter\<close>

text \<open>
  \<open>String.prototype.toLowerCase\<close> and \<open>String.prototype.includes\<close> belong to the
  runtime. Texts are Latin-1 here, a character being a code from 0 to 255:
  \<open>toLowerCase\<close> is the case conversion of Unicode on these codes. It adds 32 to the
  codes of the capital letters, which are 65 to 90 (A to Z), 192 to 214 (A grave to O
  diaeresis) and 216 to 222 (O stroke to thorn), and leaves every other code as it is,
  the multiplication sign 215 and the sharp s 223 among them.
  \<open>includes_str s q\<close> is \<open>s.includes(q)\<close>: \<open>q\<close> stands in \<open>s\<close> at some position.
\<close>

definition capital_code :: "nat \<Rightarrow> bool" where
  "capital_code n =
     ((65 \<le> n \<and> n \<le> 90) \<or> (192 \<le> n \<and> n \<le> 214) \<or> (216 \<le> n \<and> n \<le> 222))"

definition toLowerCase_char :: "char \<Rightarrow> char" where
  "toLowerCase_char c =
     (let n = (of_char c :: nat) in if capital_code n then char_of (n + 32) else c)"

definition toLowerCase :: "string \<Rightarrow> string" where
  "toLowerCase s = map toLowerCase_char s"

fun includes_str :: "string \<Rightarrow> string \<Rightarrow> bool" where
  "includes_str [] q = (q = [])"
| "includes_str (c # s) q = (prefix q (c # s) \<or> includes_str s q)"

text \<open>A client with its balance: \<open>{...client, saldo: calculateClientBalance(client.id)}\<close>\<close>

record client_saldo = client +
  saldo :: real

definition with_saldo :: "transaction list \<Rightarrow> client \<Rightarrow> client_saldo" where
  "with_saldo allTransactions c =
     client.extend c (client_saldo.fields (calculateClientBalance allTransactions (id_client c)))"

text \<open>Step 2 of \<open>refreshSearchResults\<close>: the text filter.\<close>

definition text_filter :: "string \<Rightarrow> client_saldo list \<Rightarrow> client_saldo list" where
  "text_filter query results =
     (if length query > 0 then
        (let lowerQuery = toLowerCase query in
         filter (\<lambda>c. includes_str (toLowerCase (nome c)) lowerQuery
                   \<or> includes_str (toLowerCase (empresa c)) lowerQuery
                   \<or> includes_str (toLowerCase (id_client c)) lowerQuery) results)
      else results)"

text \<open>
  Step 3: the \<open>switch\<close> over the balance filter. \<open>saldo_case\<close> is the condition of
  the \<open>case\<close> that the selector picks; a selector that matches no \<open>case\<close> filters
  nothing (the \<open>switch\<close> has no \<open>default\<close>).
\<close>

definition saldo_case :: "string \<Rightarrow> real \<Rightarrow> bool" where
  "saldo_case balanceFilter s =
     (if balanceFilter = ''positivo'' then s > 0
      else if balanceFilter = ''0-500'' then s > 0 \<and> s \<le> 500
      else if balanceFilter = ''501-1000'' then s \<ge> 501 \<and> s \<le> 1000
      else if balanceFilter = ''1001+'' then s > 1000
      else if balanceFilter = ''negativo'' then s < 0
      else if balanceFilter = ''zero'' then s = 0
      else True)"

definition balance_filter :: "string \<Rightarrow> client_saldo list \<Rightarrow> client_saldo list" where
  "balance_filter balanceFilter results =
     (if balanceFilter \<noteq> ''todos'' then filter (\<lambda>c. saldo_case balanceFilter (saldo c)) results
      else results)"

text \<open>The list of clients that \<open>refreshSearchResults\<close> renders.\<close>

definition refreshSearchResults ::
  "client list \<Rightarrow> transaction list \<Rightarrow> string \<Rightarrow> string \<Rightarrow> client_saldo list" where
  "refreshSearchResults allClients allTransactions query balanceFilter =
     balance_filter balanceFilter
       (text_filter query (map (with_saldo allTransactions) allClients))"

section \<open>The store: adding, exporting and importing transactions\<close>

text \<open>
  \<open>JSON.parse\<close>, \<open>JSON.stringify\<close>, \<open>parseFloat\<close> and \<open>Date.now\<close> belong to the
  runtime and are parameters of the functions that call them. What \<open>JSON.parse\<close>
  returns is an array of transaction records or a value that is not an array;
  \<open>None\<close> is its SyntaxError.
\<close>

datatype json =
    JArray "transaction list"
  | JObject "(string \<times> string) list"
  | JString string
  | JNumber real
  | JBool bool
  | JNull

definition Array_isArray :: "json \<Rightarrow> bool" where
  "Array_isArray v = (case v of JArray _ \<Rightarrow> True | _ \<Rightarrow> False)"

text \<open>
  The notices shown by \<open>showAlert\<close>. The two of the import: the title 'Importacao
  Concluida', and the title 'Falha na Importacao' with the message of the error caught
  (the SyntaxError of \<open>JSON.parse\<close>, or 'O arquivo nao e um array JSON valido.').
  The one of the export: the title 'Erro', with the message 'Ocorreu um erro ao gerar o
  backup.'
\<close>

datatype import_error = SyntaxError | NaoArray

datatype notice = ImportacaoConcluida | FalhaNaImportacao import_error | ErroAoGerarBackup

text \<open>
  The state: the store \<open>allTransactions\<close>, the text under \<open>TRANSACTIONS_KEY\<close> in
  localStorage (\<open>None\<close> when the key is absent), and what the two modals show.
\<close>

record app_state =
  allTransactions :: "transaction list"
  localStorage :: "string option"
  ioModalHidden :: bool
  ioModalTextarea :: string
  alertModal :: "notice option"

definition saveTransactions :: "(transaction list \<Rightarrow> string) \<Rightarrow> app_state \<Rightarrow> app_state" where
  "saveTransactions JSON_stringify st =
     st\<lparr>localStorage := Some (JSON_stringify (allTransactions st))\<rparr>"

text \<open>
  \<open>addTransaction\<close>: \<open>now\<close> is what \<open>Date.now()\<close> returns, \<open>show_nat\<close> prints it
  in the template literal of the id.
\<close>

definition newTransaction ::
  "(nat \<Rightarrow> string) \<Rightarrow> nat \<Rightarrow> (string \<Rightarrow> real) \<Rightarrow> string \<Rightarrow> string \<Rightarrow> string \<Rightarrow> string
     \<Rightarrow> transaction" where
  "newTransaction show_nat now parseFloat clientId type val date =
     \<lparr>id_trans = ''trans_'' @ show_nat now, clienteId = clientId, tipo = type,
      valor = parseFloat val, data = date\<rparr>"

definition addTransaction ::
  "(transaction list \<Rightarrow> string) \<Rightarrow> (nat \<Rightarrow> string) \<Rightarrow> nat \<Rightarrow> (string \<Rightarrow> real)
     \<Rightarrow> string \<Rightarrow> string \<Rightarrow> string \<Rightarrow> string \<Rightarrow> app_state \<Rightarrow> app_state" where
  "addTransaction JSON_stringify show_nat now parseFloat clientId type val date st =
     saveTransactions JSON_stringify
       (st\<lparr>allTransactions :=
            allTransactions st @ [newTransaction show_nat now parseFloat clientId type val date]\<rparr>)"

text \<open>
  \<open>handleExport\<close>. \<open>JSON_stringify_2\<close> is \<open>JSON.stringify(x, null, 2)\<close>, which
  writes the text with line breaks and an indentation of two spaces, where
  \<open>saveTransactions\<close> calls \<open>JSON.stringify(x)\<close>; \<open>None\<close> is an exception thrown
  by it. Inside the \<open>try\<close> block the text goes to the textarea of the modal, which
  \<open>showIOModal\<close> opens; the \<open>catch\<close> block shows the notice 'Erro'.
\<close>

definition handleExport ::
  "(transaction list \<Rightarrow> string option) \<Rightarrow> app_state \<Rightarrow> app_state" where
  "handleExport JSON_stringify_2 st =
     (case JSON_stringify_2 (allTransactions st) of
        Some dados \<Rightarrow> st\<lparr>ioModalTextarea := dados, ioModalHidden := False\<rparr>
      | None \<Rightarrow> st\<lparr>alertModal := Some ErroAoGerarBackup\<rparr>)"

text \<open>
  \<open>handleImportFile\<close>, from the confirmation on: the \<open>onload\<close> callback of the
  reader, with the text of the file. The \<open>try\<close> block stops at the first error and the
  \<open>catch\<close> block shows it; the store is assigned only after both checks.
\<close>

definition import_onload ::
  "(string \<Rightarrow> json option) \<Rightarrow> (transaction list \<Rightarrow> string) \<Rightarrow> string \<Rightarrow> app_state \<Rightarrow> app_state" where
  "import_onload JSON_parse JSON_stringify result st =
     (case JSON_parse result of
        None \<Rightarrow> st\<lparr>alertModal := Some (FalhaNaImportacao SyntaxError)\<rparr>
      | Some importedData \<Rightarrow>
          if \<not> Array_isArray importedData
          then st\<lparr>alertModal := Some (FalhaNaImportacao NaoArray)\<rparr>
          else (case importedData of
                  JArray ts \<Rightarrow>
                    (saveTransactions JSON_stringify (st\<lparr>allTransactions := ts\<rparr>))
                      \<lparr>ioModalHidden := True, alertModal := Some ImportacaoConcluida\<rparr>
                | _ \<Rightarrow> st))"

section \<open>The specification's notions\<close>

text \<open>
  The calendar date that a text \<open>yyyy-mm-dd\<close> writes: year, month and day, when the
  text has that form and the day exists in that month. Calendar dates are ordered by
  year, then month, then day.
\<close>

definition civil :: "string \<Rightarrow> (nat \<times> nat \<times> nat) option" where
  "civil s =
     (if length s = 10 \<and> s ! 4 = CHR ''-'' \<and> s ! 7 = CHR ''-'' then
        (case (number (take 4 s), number (take 2 (drop 5 s)), number (take 2 (drop 8 s))) of
           (Some y, Some m, Some d) \<Rightarrow>
             if 1 \<le> m \<and> m \<le> 12 \<and> 1 \<le> d \<and> d \<le> days_in_month y m then Some (y, m, d)
             else None
         | _ \<Rightarrow> None)
      else None)"

fun on_or_before :: "nat \<times> nat \<times> nat \<Rightarrow> nat \<times> nat \<times> nat \<Rightarrow> bool" where
  "on_or_before (y1, m1, d1) (y2, m2, d2) =
     (y1 < y2 \<or> (y1 = y2 \<and> (m1 < m2 \<or> (m1 = m2 \<and> d1 \<le> d2))))"

text \<open>\<open>date_le a b\<close>: both texts write calendar dates, and \<open>a\<close> is \<open>b\<close> or earlier.\<close>

definition date_le :: "string \<Rightarrow> string \<Rightarrow> bool" where
  "date_le a b =
     (case (civil a, civil b) of (Some x, Some y) \<Rightarrow> on_or_before x y | _ \<Rightarrow> False)"

text \<open>
  A bound of the period is absent (\<open>null\<close> or the empty text of an unset date input)
  or provided. \<open>bound_ok\<close>: a provided bound writes a calendar date.
  \<open>within_period\<close> is the specification's date filter: on or after the start when one
  is provided, and on or before the end when one is provided.
\<close>

definition bound_ok :: "string option \<Rightarrow> bool" where
  "bound_ok b = (case b of None \<Rightarrow> True | Some s \<Rightarrow> s = [] \<or> civil s \<noteq> None)"

definition within_period :: "string option \<Rightarrow> string option \<Rightarrow> string \<Rightarrow> bool" where
  "within_period startDate endDate d =
     ((case startDate of None \<Rightarrow> True | Some s \<Rightarrow> s = [] \<or> date_le s d)
      \<and> (case endDate of None \<Rightarrow> True | Some e \<Rightarrow> e = [] \<or> date_le d e))"


text \<open>
  The letters of Latin-1 that have two cases, capital and small in the same order: the
  26 letters of the alphabet, the 23 accented letters from A grave (192) to O diaeresis
  (214), whose small forms are 224 to 246, and the 7 letters from O stroke (216) to
  thorn (222), whose small forms are 248 to 254.
\<close>

definition capital_letters :: string where
  "capital_letters =
     ''ABCDEFGHIJKLMNOPQRSTUVWXYZ'' @ map char_of [192 ..< 215 :: nat]
       @ map char_of [216 ..< 223 :: nat]"

definition small_letters :: string where
  "small_letters =
     ''abcdefghijklmnopqrstuvwxyz'' @ map char_of [224 ..< 247 :: nat]
       @ map char_of [248 ..< 255 :: nat]"

definition letter_pairs :: "(char \<times> char) list" where
  "letter_pairs = zip capital_letters small_letters"

text \<open>
  Two characters are the same letter when they differ at most in case: they are equal,
  or one is the capital and the other the small form of one letter. A text contains
  a query as a case-insensitive substring when one of its segments (the prefixes of its
  suffixes) matches the query letter by letter.
\<close>

definition same_letter :: "char \<Rightarrow> char \<Rightarrow> bool" where
  "same_letter a b = (a = b \<or> (a, b) \<in> set letter_pairs \<or> (b, a) \<in> set letter_pairs)"

definition segments :: "string \<Rightarrow> string list" where
  "segments s = concat (map prefixes (suffixes s))"

definition contains_ignoring_case :: "string \<Rightarrow> string \<Rightarrow> bool" where
  "contains_ignoring_case s q = (\<exists>u \<in> set (segments s). list_all2 same_letter u q)"

text \<open>The selectors of the balance filter that name a range of balances.\<close>

definition faixas :: "string list" where
  "faixas = [''0-500'', ''501-1000'', ''1001+'', ''negativo'', ''zero'']"

section \<open>Example data\<close>

text \<open>
  The scenario of the specification: one client with a commission of 10 per cent and one
  entrada of 1000 on 10 January 2024.
\<close>

definition cliente_c1 :: client where
  "cliente_c1 =
     \<lparr>id_client = ''c1'', nome = ''Maria Silva'', empresa = ''Padaria Central'',
      celular = ''5511999990000'', vendedor = ''Joao'', bandeira = ''Visa'', senha = ''1234'',
      comissaoPct = Some 10,
      enderecoCompleto =
        \<lparr>logouro = ''Rua A'', numero = ''10'', bairro = ''Centro'', cidade = ''Sao Paulo'',
         estado = ''SP''\<rparr>\<rparr>"

definition entrada_c1 :: transaction where
  "entrada_c1 =
     \<lparr>id_trans = ''trans_1'', clienteId = ''c1'', tipo = ''entrada'', valor = 1000,
      data = ''2024-01-10''\<rparr>"

text \<open>
  A client whose name is written in capitals with a letter outside ASCII, 'JOAO PEREIRA'
  with A tilde (code 195), and the same name in small letters, with a tilde (code 227).
\<close>

definition cliente_c2 :: client where
  "cliente_c2 =
     \<lparr>id_client = ''c2'', nome = ''JO'' @ [CHR 0xC3] @ ''O PEREIRA'', empresa = ''Mercado Sul'',
      celular = ''5511888880000'', vendedor = ''Ana'', bandeira = ''Master'', senha = ''4321'',
      comissaoPct = None,
      enderecoCompleto =
        \<lparr>logouro = ''Rua B'', numero = ''20'', bairro = ''Sul'', cidade = ''Campinas'',
         estado = ''SP''\<rparr>\<rparr>"

definition joao_pereira :: string where
  "joao_pereira = ''jo'' @ [CHR 0xE3] @ ''o pereira''"

text \<open>An entrada and a saida of client c1 on a given day.\<close>

definition entrada_em :: "string \<Rightarrow> real \<Rightarrow> transaction" where
  "entrada_em d v =
     \<lparr>id_trans = ''trans_e_'' @ d, clienteId = ''c1'', tipo = ''entrada'', valor = v, data = d\<rparr>"

definition saida_em :: "string \<Rightarrow> real \<Rightarrow> transaction" where
  "saida_em d v =
     \<lparr>id_trans = ''trans_s_'' @ d, clienteId = ''c1'', tipo = ''saida'', valor = v, data = d\<rparr>"

text \<open>Five entradas and one saida of client c1, not in the order of their dates.\<close>

definition transacoes_exemplo :: "transaction list" where
  "transacoes_exemplo =
     [entrada_em ''2024-01-05'' 10, entrada_em ''2024-03-01'' 20, saida_em ''2024-02-01'' 5,
      entrada_em ''2023-12-31'' 30, entrada_em ''2024-02-10'' 40, entrada_em ''2024-01-20'' 50]"



text \<open>
  Four transactions of client c1 whose running total rounds: \<open>2^53 + 1\<close> is not a
  double. The second list holds the same transactions in another order.
\<close>

definition transacoes_arredondamento :: "transaction list" where
  "transacoes_arredondamento =
     [entrada_em ''2024-01-01'' 9007199254740992, entrada_em ''2024-01-02'' 1,
      saida_em ''2024-01-03'' 9007199254740992, entrada_em ''2024-01-04'' 1]"

definition transacoes_arredondamento_2 :: "transaction list" where
  "transacoes_arredondamento_2 =
     [entrada_em ''2024-01-02'' 1, entrada_em ''2024-01-04'' 1,
      entrada_em ''2024-01-01'' 9007199254740992, saida_em ''2024-01-03'' 9007199254740992]"

definition estado_exemplo :: app_state where
  "estado_exemplo =
     \<lparr>allTransactions = [entrada_c1], localStorage = Some ''[]'', ioModalHidden = False,
      ioModalTextarea = [], alertModal = None\<rparr>"

text \<open>
  A stand-in for the JSON functions of the runtime on the three texts the examples use:
  the object of the specification's import scenario, the empty array, and the array
  that holds \<open>entrada_c1\<close> (written without the line breaks of the pretty printer).
\<close>

definition texto_entrada_c1 :: string where
  "texto_entrada_c1 =
     ''[{\"id\":\"trans_1\",\"clienteId\":\"c1\",\"tipo\":\"entrada\",\"valor\":1000,\"data\":\"2024-01-10\"}]''"

definition JSON_parse_exemplo :: "string \<Rightarrow> json option" where
  "JSON_parse_exemplo s =
     (if s = ''{\"not\":\"an array\"}'' then Some (JObject [(''not'', ''an array'')])
      else if s = ''[]'' then Some (JArray [])
      else if s = texto_entrada_c1 then Some (JArray [entrada_c1])
      else None)"

definition JSON_stringify_exemplo :: "transaction list \<Rightarrow> string" where
  "JSON_stringify_exemplo ts =
     (if ts = [] then ''[]'' else if ts = [entrada_c1] then texto_entrada_c1 else ''?'')"

section \<open>Properties of the numbers\<close>

lemma bits_bounds: "0 < n \<Longrightarrow> 2 ^ (bits n - 1) \<le> n \<and> n < 2 ^ bits n"
proof (induction n rule: bits.induct)
  case (1 n)
  show ?case
  proof (cases "n div 2 = 0")
    case True
    with 1(2) have "n = 1" by (simp add: div_eq_0_iff)
    then show ?thesis by (simp add: bits.simps)
  next
    case False
    with 1 have ih: "2 ^ (bits (n div 2) - 1) \<le> n div 2 \<and> n div 2 < 2 ^ bits (n div 2)"
      by simp
    from False have pos: "0 < bits (n div 2)"
      by (subst bits.simps) simp
    from 1(2) have b: "bits n = Suc (bits (n div 2))"
      by (subst bits.simps) simp
    from pos obtain k where k: "bits (n div 2) = Suc k"
      by (cases "bits (n div 2)") simp_all
    from ih k have "2 ^ k \<le> n div 2" "n div 2 < 2 * 2 ^ k" by simp_all
    then have "2 * 2 ^ k \<le> n" "n < 2 * (2 * 2 ^ k)" by arith+
    then show ?thesis by (simp add: b k)
  qed
qed

lemma round_even_of_int: "round_even (of_int k) = k"
  by (simp add: round_even_def Let_def)

text \<open>An integer of magnitude up to \<open>2^53\<close> is a double: rounding leaves it as it is.\<close>

lemma round_double_int:
  assumes "x \<in> \<int>" "\<bar>x\<bar> \<le> 2 ^ 53"
  shows "round_double x = x"
proof (cases "x = 0")
  case True
  then show ?thesis by (simp add: round_double_def)
next
  case False
  from assms(1) obtain k :: int where k: "x = of_int k" by (auto elim: Ints_cases)
  with False have k0: "k \<noteq> 0" by simp
  define n where "n = nat \<bar>k\<bar>"
  from k0 have n0: "0 < n" by (simp add: n_def)
  have ax: "\<bar>x\<bar> = real n" by (simp add: k n_def)
  from assms(2) ax have n53: "n \<le> 2 ^ 53"
    by (metis of_nat_le_iff of_nat_numeral of_nat_power)
  from n0 ax have one: "1 \<le> \<bar>x\<bar>" by simp
  have fl: "nat \<lfloor>\<bar>x\<bar>\<rfloor> = n" by (simp add: ax)
  from bits_bounds [OF n0] have lo: "2 ^ (bits n - 1) \<le> n" and hi: "n < 2 ^ bits n"
    by simp_all
  from n0 have bpos: "0 < bits n" by (subst bits.simps) simp
  then obtain e where e: "bits n = Suc e" by (cases "bits n") simp_all
  from lo e n53 have p: "(2::nat) ^ e \<le> 2 ^ 53" by simp
  have e53: "e \<le> 53"
  proof (rule power_le_imp_le_exp)
    show "(1::nat) < 2" by simp
    show "(2::nat) ^ e \<le> 2 ^ 53" by (rule p)
  qed
  have ex: "expo x = int e" by (simp add: expo_def one fl e)
  have u: "ulp x = pow2 (int e - 52)" by (simp add: ulp_def ex max_def)
  have "\<exists>j::int. x / ulp x = of_int j"
  proof (cases "e \<le> 52")
    case True
    then have "ulp x = 1 / 2 ^ (52 - e)"
      by (cases "e = 52") (simp_all add: u pow2_def nat_diff_distrib')
    then have "x / ulp x = of_int (k * 2 ^ (52 - e))" by (simp add: k)
    then show ?thesis by blast
  next
    case False
    with e53 have e': "e = 53" by simp
    with lo e n53 have "n = 2 ^ 53" by simp
    then have "\<bar>k\<bar> = 2 ^ 53" by (simp add: n_def)
    then have "k = 2 * 2 ^ 52 \<or> k = - (2 * 2 ^ 52)" by (auto simp: abs_if split: if_splits)
    moreover have "ulp x = 2" by (simp add: u e' pow2_def)
    ultimately have "x / ulp x = of_int (2 ^ 52) \<or> x / ulp x = of_int (- (2 ^ 52))"
      by (auto simp: k)
    then show ?thesis by blast
  qed
  then obtain j :: int where j: "x / ulp x = of_int j" by blast
  have up: "ulp x \<noteq> 0" by (simp add: u pow2_def)
  from j up have "of_int j * ulp x = x" by (simp add: field_simps)
  with False show ?thesis by (simp add: round_double_def j round_even_of_int)
qed

text \<open>\<open>2^53 + 1\<close> lies halfway between two doubles and rounds to the even one.\<close>

lemma round_double_tie: "round_double 9007199254740993 = 9007199254740992"
proof -
  have "bits 9007199254740993 = 54" by (simp add: bits.simps)
  then show ?thesis
    by (simp add: round_double_def ulp_def expo_def pow2_def round_even_def Let_def)
qed

lemma js_sub_as_add: "js_sub a b = js_add a (- b)"
  by (simp add: js_sub_def js_add_def)

section \<open>Properties of the balance\<close>

lemma getTransactionsForClient_filter:
  "filter P (getTransactionsForClient ts cid) = filter (\<lambda>t. clienteId t = cid \<and> P t) ts"
  by (simp add: getTransactionsForClient_def)

text \<open>A transaction of another tipo leaves the running total as it is.\<close>

lemma foldl_balance_step_filter:
  "foldl balance_step acc (filter (\<lambda>t. tipo t = ''entrada'' \<or> tipo t = ''saida'') ts)
     = foldl balance_step acc ts"
  by (induction ts arbitrary: acc) (simp_all add: balance_step_def)

lemma foldl_balance_step_signed:
  "foldl balance_step acc ts
     = foldl js_add acc
         (map (\<lambda>t. if tipo t = ''entrada'' then valor t else - valor t)
            (filter (\<lambda>t. tipo t = ''entrada'' \<or> tipo t = ''saida'') ts))"
  by (induction ts arbitrary: acc) (simp_all add: balance_step_def js_sub_as_add)

text \<open>
  When the values are integers and the total with all magnitudes added stays within
  \<open>2^53\<close>, no step rounds.
\<close>

lemma foldl_balance_step_exact:
  assumes "acc \<in> \<int>" "list_all (\<lambda>t. valor t \<in> \<int>) ts"
      and "\<bar>acc\<bar> + sum_list (map (\<lambda>t. \<bar>valor t\<bar>) ts) \<le> 2 ^ 53"
  shows "foldl balance_step acc ts =
     acc + sum_list (map valor (filter (\<lambda>t. tipo t = ''entrada'') ts))
         - sum_list (map valor (filter (\<lambda>t. tipo t = ''saida'') ts))"
  using assms
proof (induction ts arbitrary: acc)
  case Nil
  then show ?case by simp
next
  case (Cons t ts)
  from Cons.prems have vt: "valor t \<in> \<int>" and rest: "list_all (\<lambda>t. valor t \<in> \<int>) ts"
    by simp_all
  have nn: "0 \<le> sum_list (map (\<lambda>t. \<bar>valor t\<bar>) ts)"
    by (rule sum_list_nonneg) auto
  from Cons.prems(3) have bound:
    "\<bar>acc\<bar> + \<bar>valor t\<bar> + sum_list (map (\<lambda>t. \<bar>valor t\<bar>) ts) \<le> 2 ^ 53"
    by simp
  consider (e) "tipo t = ''entrada''" | (s) "tipo t \<noteq> ''entrada''" "tipo t = ''saida''"
    | (o) "tipo t \<noteq> ''entrada''" "tipo t \<noteq> ''saida''"
    by blast
  then show ?case
  proof cases
    case e
    have i: "acc + valor t \<in> \<int>" using Cons.prems(1) vt by simp
    have b: "\<bar>acc + valor t\<bar> + sum_list (map (\<lambda>t. \<bar>valor t\<bar>) ts) \<le> 2 ^ 53"
      using bound by linarith
    with nn have "\<bar>acc + valor t\<bar> \<le> 2 ^ 53" by linarith
    with i have r: "js_add acc (valor t) = acc + valor t"
      by (simp add: js_add_def round_double_int)
    from Cons.IH [OF i rest b] e r show ?thesis
      by (simp add: balance_step_def)
  next
    case s
    have i: "acc - valor t \<in> \<int>" using Cons.prems(1) vt by simp
    have b: "\<bar>acc - valor t\<bar> + sum_list (map (\<lambda>t. \<bar>valor t\<bar>) ts) \<le> 2 ^ 53"
      using bound by linarith
    with nn have "\<bar>acc - valor t\<bar> \<le> 2 ^ 53" by linarith
    with i have r: "js_sub acc (valor t) = acc - valor t"
      by (simp add: js_sub_def round_double_int)
    from Cons.IH [OF i rest b] s r show ?thesis
      by (simp add: balance_step_def)
  next
    case o
    have b: "\<bar>acc\<bar> + sum_list (map (\<lambda>t. \<bar>valor t\<bar>) ts) \<le> 2 ^ 53"
      using bound by linarith
    from Cons.IH [OF Cons.prems(1) rest b] o show ?thesis
      by (simp add: balance_step_def)
  qed
qed

text \<open>
  Claim C1, as stated, does not hold: the balance is a running total in which every step
  is rounded, not the sum of the entradas minus the sum of the saidas. For the four
  transactions of the example the balance is 1, while the sum of the entradas minus the
  sum of the saidas is 2 when the sums are exact and 0 when each sum is taken in
  doubles; with the same transactions in another order the balance is 2.
\<close>

theorem balance_rounds_counterexample:
  "calculateClientBalance transacoes_arredondamento ''c1'' = 1
   \<and> sum_list (map valor (filter (\<lambda>t. clienteId t = ''c1'' \<and> tipo t = ''entrada'')
                  transacoes_arredondamento))
     - sum_list (map valor (filter (\<lambda>t. clienteId t = ''c1'' \<and> tipo t = ''saida'')
                  transacoes_arredondamento)) = 2
   \<and> js_sub (foldl js_add 0 (map valor (filter (\<lambda>t. clienteId t = ''c1'' \<and> tipo t = ''entrada'')
                  transacoes_arredondamento)))
            (foldl js_add 0 (map valor (filter (\<lambda>t. clienteId t = ''c1'' \<and> tipo t = ''saida'')
                  transacoes_arredondamento))) = 0
   \<and> calculateClientBalance transacoes_arredondamento_2 ''c1'' = 2"
proof -
  have big: "round_double 9007199254740992 = 9007199254740992"
    by (rule round_double_int) simp_all
  have one: "round_double 1 = 1"
    by (rule round_double_int) simp_all
  have two: "round_double 2 = 2"
    by (rule round_double_int) simp_all
  have big2: "round_double 9007199254740994 = 9007199254740994"
    by (simp add: round_double_def ulp_def expo_def pow2_def round_even_def Let_def bits.simps)
  have zero: "round_double 0 = 0"
    by (simp add: round_double_def)
  show ?thesis
    by (simp add: calculateClientBalance_def getTransactionsForClient_def balance_step_def
          transacoes_arredondamento_def transacoes_arredondamento_2_def entrada_em_def
          saida_em_def js_add_def js_sub_def big one two big2 zero round_double_tie)
qed

text \<open>
  Claim C1, amended. For every client id and every list of transactions, the balance is
  the running total, taken in store order from 0 over the client's transactions, that
  adds \<open>valor\<close> for tipo 'entrada' and subtracts it for tipo 'saida', each step rounded
  to a double. When the values of the client's entradas and saidas are integers whose
  magnitudes add up to at most \<open>2^53\<close>, no step rounds and the balance is the sum of the
  entradas minus the sum of the saidas. Transactions of any other tipo are ignored
  (removing them changes nothing), transactions of other clients have no effect
  (removing them changes nothing), and the balance is 0 when no transaction is the
  client's, in particular for the empty store. The function never reads the roster, so
  this holds for ids the roster does not know.
\<close>

theorem balance_is_rounded_running_total:
  "calculateClientBalance ts cid =
       foldl js_add 0
         (map (\<lambda>t. if tipo t = ''entrada'' then valor t else - valor t)
            (filter (\<lambda>t. clienteId t = cid \<and> (tipo t = ''entrada'' \<or> tipo t = ''saida'')) ts))
   \<and> (list_all (\<lambda>t. valor t \<in> \<int>)
         (filter (\<lambda>t. clienteId t = cid \<and> (tipo t = ''entrada'' \<or> tipo t = ''saida'')) ts)
       \<and> sum_list (map (\<lambda>t. \<bar>valor t\<bar>)
           (filter (\<lambda>t. clienteId t = cid \<and> (tipo t = ''entrada'' \<or> tipo t = ''saida'')) ts))
           \<le> 2 ^ 53
       \<longrightarrow> calculateClientBalance ts cid =
             sum_list (map valor (filter (\<lambda>t. clienteId t = cid \<and> tipo t = ''entrada'') ts))
           - sum_list (map valor (filter (\<lambda>t. clienteId t = cid \<and> tipo t = ''saida'') ts)))
   \<and> calculateClientBalance (filter (\<lambda>t. tipo t = ''entrada'' \<or> tipo t = ''saida'') ts) cid
       = calculateClientBalance ts cid
   \<and> calculateClientBalance (filter (\<lambda>t. clienteId t = cid) ts) cid
       = calculateClientBalance ts cid
   \<and> calculateClientBalance (filter (\<lambda>t. clienteId t \<noteq> cid) ts) cid = 0
   \<and> calculateClientBalance [] cid = 0"
proof -
  let ?es = "\<lambda>t. tipo t = ''entrada'' \<or> tipo t = ''saida''"
  let ?mine = "filter (\<lambda>t. clienteId t = cid \<and> ?es t) ts"
  have mine: "filter ?es (getTransactionsForClient ts cid) = ?mine"
    by (rule getTransactionsForClient_filter)
  have run: "calculateClientBalance ts cid =
       foldl js_add 0 (map (\<lambda>t. if tipo t = ''entrada'' then valor t else - valor t) ?mine)"
    unfolding calculateClientBalance_def foldl_balance_step_signed mine by (rule refl)
  have as_mine: "calculateClientBalance ts cid = foldl balance_step 0 ?mine"
    unfolding calculateClientBalance_def mine [symmetric] foldl_balance_step_filter
    by (rule refl)
  have exact: "list_all (\<lambda>t. valor t \<in> \<int>) ?mine
       \<and> sum_list (map (\<lambda>t. \<bar>valor t\<bar>) ?mine) \<le> 2 ^ 53
       \<longrightarrow> calculateClientBalance ts cid =
             sum_list (map valor (filter (\<lambda>t. clienteId t = cid \<and> tipo t = ''entrada'') ts))
           - sum_list (map valor (filter (\<lambda>t. clienteId t = cid \<and> tipo t = ''saida'') ts))"
  proof (intro impI, elim conjE)
    assume i: "list_all (\<lambda>t. valor t \<in> \<int>) ?mine"
       and b: "sum_list (map (\<lambda>t. \<bar>valor t\<bar>) ?mine) \<le> 2 ^ 53"
    have e: "filter (\<lambda>t. tipo t = ''entrada'') ?mine
               = filter (\<lambda>t. clienteId t = cid \<and> tipo t = ''entrada'') ts"
      by (induction ts) auto
    have s: "filter (\<lambda>t. tipo t = ''saida'') ?mine
               = filter (\<lambda>t. clienteId t = cid \<and> tipo t = ''saida'') ts"
      by (induction ts) auto
    from b have b0: "\<bar>0::real\<bar> + sum_list (map (\<lambda>t. \<bar>valor t\<bar>) ?mine) \<le> 2 ^ 53"
      by simp
    have z: "(0::real) \<in> \<int>" by simp
    have "foldl balance_step 0 ?mine =
            0 + sum_list (map valor (filter (\<lambda>t. tipo t = ''entrada'') ?mine))
              - sum_list (map valor (filter (\<lambda>t. tipo t = ''saida'') ?mine))"
      using z i b0 by (rule foldl_balance_step_exact)
    then have "calculateClientBalance ts cid =
            0 + sum_list (map valor (filter (\<lambda>t. clienteId t = cid \<and> tipo t = ''entrada'') ts))
              - sum_list (map valor (filter (\<lambda>t. clienteId t = cid \<and> tipo t = ''saida'') ts))"
      unfolding e s as_mine .
    then show "calculateClientBalance ts cid =
             sum_list (map valor (filter (\<lambda>t. clienteId t = cid \<and> tipo t = ''entrada'') ts))
           - sum_list (map valor (filter (\<lambda>t. clienteId t = cid \<and> tipo t = ''saida'') ts))"
      by (simp only: add_0)
  qed
  have other: "calculateClientBalance (filter ?es ts) cid = calculateClientBalance ts cid"
  proof -
    have "getTransactionsForClient (filter ?es ts) cid = filter ?es (getTransactionsForClient ts cid)"
      by (simp add: getTransactionsForClient_def conj_commute)
    then show ?thesis
      by (simp only: calculateClientBalance_def foldl_balance_step_filter)
  qed
  have same: "calculateClientBalance (filter (\<lambda>t. clienteId t = cid) ts) cid
       = calculateClientBalance ts cid"
    by (simp add: calculateClientBalance_def getTransactionsForClient_def)
  have none: "calculateClientBalance (filter (\<lambda>t. clienteId t \<noteq> cid) ts) cid = 0"
    by (simp add: calculateClientBalance_def getTransactionsForClient_def)
  have nil: "calculateClientBalance [] cid = 0"
    by (simp add: calculateClientBalance_def getTransactionsForClient_def)
  from run exact other same none nil show ?thesis by blast
qed

text \<open>
  The six transactions of the example have integer values that add up to 155: the
  balance of c1 is 10 + 20 - 5 + 30 + 40 + 50.
\<close>

theorem balance_is_rounded_running_total_witness:
  "list_all (\<lambda>t. valor t \<in> \<int>)
     (filter (\<lambda>t. clienteId t = ''c1'' \<and> (tipo t = ''entrada'' \<or> tipo t = ''saida''))
        transacoes_exemplo)
   \<and> sum_list (map (\<lambda>t. \<bar>valor t\<bar>)
        (filter (\<lambda>t. clienteId t = ''c1'' \<and> (tipo t = ''entrada'' \<or> tipo t = ''saida''))
           transacoes_exemplo)) \<le> 2 ^ 53
   \<and> calculateClientBalance transacoes_exemplo ''c1'' = 145"
proof -
  have i: "list_all (\<lambda>t. valor t \<in> \<int>)
     (filter (\<lambda>t. clienteId t = ''c1'' \<and> (tipo t = ''entrada'' \<or> tipo t = ''saida''))
        transacoes_exemplo)"
    by (simp add: transacoes_exemplo_def entrada_em_def saida_em_def)
  have b: "sum_list (map (\<lambda>t. \<bar>valor t\<bar>)
        (filter (\<lambda>t. clienteId t = ''c1'' \<and> (tipo t = ''entrada'' \<or> tipo t = ''saida''))
           transacoes_exemplo)) \<le> 2 ^ 53"
    by (simp add: transacoes_exemplo_def entrada_em_def saida_em_def)
  have v: "sum_list (map valor (filter (\<lambda>t. clienteId t = ''c1'' \<and> tipo t = ''entrada'')
                  transacoes_exemplo))
     - sum_list (map valor (filter (\<lambda>t. clienteId t = ''c1'' \<and> tipo t = ''saida'')
                  transacoes_exemplo)) = 145"
    by (simp add: transacoes_exemplo_def entrada_em_def saida_em_def)
  from balance_is_rounded_running_total [of transacoes_exemplo "''c1''"] i b
  have "calculateClientBalance transacoes_exemplo ''c1'' =
       sum_list (map valor (filter (\<lambda>t. clienteId t = ''c1'' \<and> tipo t = ''entrada'')
                  transacoes_exemplo))
     - sum_list (map valor (filter (\<lambda>t. clienteId t = ''c1'' \<and> tipo t = ''saida'')
                  transacoes_exemplo))"
    by blast
  with v have "calculateClientBalance transacoes_exemplo ''c1'' = 145" by simp
  with i b show ?thesis by blast
qed

section \<open>Properties of the date filter\<close>

lemma number_00: "number ''00'' = Some 0"
  by (simp add: number_def digit_def)

text \<open>
  On a text that writes a calendar date, \<open>parseDate\<close> gives midnight of that day; on
  every other text it gives the Invalid Date.
\<close>

lemma parseDate_civil:
  "parseDate s = (case civil s of None \<Rightarrow> None
                  | Some (y, m, d) \<Rightarrow> Some (day_number y m d * 86400000))"
proof (cases "length s = 10")
  case True
  then show ?thesis
    by (simp add: parseDate_def Date_new_def civil_def nth_append number_00
             split: option.splits)
next
  case False
  then show ?thesis
    by (simp add: parseDate_def Date_new_def civil_def)
qed

lemma civil_valid:
  "civil s = Some (y, m, d) \<Longrightarrow> 1 \<le> m \<and> m \<le> 12 \<and> 1 \<le> d \<and> d \<le> days_in_month y m"
  by (auto simp: civil_def split: if_splits option.splits)

lemma days_before_month_Suc:
  "1 \<le> m \<Longrightarrow> days_before_month y (Suc m) = days_before_month y m + days_in_month y m"
  by (simp add: days_before_month_def)

lemma upt_1_13: "[Suc 0..<13] = [1, 2, 3, 4, 5, 6, 7, 8, 9, 10, 11, 12]"
  by (simp add: upt_conv_Cons)

lemma days_before_month_13:
  "days_before_month y 13 = (if is_leap y then 366 else 365)"
  by (simp add: days_before_month_def days_in_month_def upt_1_13)

lemma div_step:
  assumes "0 < k"
  shows "(Suc y + (k - 1)) div k = (y + (k - 1)) div k + (if y mod k = 0 then 1 else 0)"
proof -
  have m: "Suc (y + (k - 1)) mod k = y mod k"
  proof -
    from assms have "Suc (y + (k - 1)) = y + k" by simp
    then show ?thesis by (simp only: mod_add_self2)
  qed
  have "(Suc y + (k - 1)) div k = Suc (y + (k - 1)) div k" by simp
  also have "\<dots> = (if Suc (y + (k - 1)) mod k = 0 then Suc ((y + (k - 1)) div k)
                     else (y + (k - 1)) div k)"
    by (rule div_Suc)
  also have "\<dots> = (y + (k - 1)) div k + (if y mod k = 0 then 1 else 0)"
    by (simp only: m) simp
  finally show ?thesis .
qed

lemma div100_le_div4: "(y + 99) div 100 \<le> (y + 3) div (4::nat)"
proof -
  define q where "q = (y + 99) div 100"
  have "q * 100 \<le> y + 99"
    unfolding q_def by (rule div_times_less_eq_dividend)
  then have "q * 4 \<le> y + 3" by arith
  then have "q \<le> (y + 3) div 4"
    by (simp add: less_eq_div_iff_mult_less_eq)
  then show ?thesis by (simp add: q_def)
qed

lemma dvd_mod0: "(k::nat) dvd n \<Longrightarrow> y mod n = 0 \<Longrightarrow> y mod k = 0"
  by (meson dvd_trans mod_eq_0_iff_dvd)

text \<open>A year has 366 days when it is a leap year and 365 otherwise.\<close>

lemma days_before_year_Suc:
  "days_before_year (Suc y) = days_before_year y + (if is_leap y then 366 else 365)"
proof -
  define A where "A = (y + 3) div 4"
  define B where "B = (y + 99) div 100"
  define C where "C = (y + 399) div 400"
  have s4: "(Suc y + 3) div 4 = A + (if y mod 4 = 0 then 1 else 0)"
    using div_step [of 4 y] by (simp add: A_def)
  have s100: "(Suc y + 99) div 100 = B + (if y mod 100 = 0 then 1 else 0)"
    using div_step [of 100 y] by (simp add: B_def)
  have s400: "(Suc y + 399) div 400 = C + (if y mod 400 = 0 then 1 else 0)"
    using div_step [of 400 y] by (simp add: C_def)
  have a: "y mod 400 = 0 \<Longrightarrow> y mod 100 = 0"
    by (rule dvd_mod0 [of 100 400]) simp_all
  have b: "y mod 100 = 0 \<Longrightarrow> y mod 4 = 0"
    by (rule dvd_mod0 [of 4 100]) simp_all
  have le: "B \<le> A"
    unfolding A_def B_def by (rule div100_le_div4)
  have l: "days_before_year (Suc y)
      = 365 * Suc y + (A + (if y mod 4 = 0 then 1 else 0))
        - (B + (if y mod 100 = 0 then 1 else 0)) + (C + (if y mod 400 = 0 then 1 else 0))"
    unfolding days_before_year_def s4 s100 s400 by (rule refl)
  have r: "days_before_year y = 365 * y + A - B + C"
    unfolding days_before_year_def A_def B_def C_def by (rule refl)
  consider (c400) "y mod 400 = 0" | (c100) "y mod 400 \<noteq> 0" "y mod 100 = 0"
    | (c4) "y mod 100 \<noteq> 0" "y mod 4 = 0" | (c1) "y mod 4 \<noteq> 0"
    by blast
  then show ?thesis
  proof cases
    case c400
    with a b have "y mod 100 = 0" "y mod 4 = 0" by simp_all
    with c400 le show ?thesis unfolding l r is_leap_def by simp
  next
    case c100
    with b have "y mod 4 = 0" by simp
    with c100 le show ?thesis unfolding l r is_leap_def by simp
  next
    case c4
    with a have "y mod 400 \<noteq> 0" by auto
    with c4 le show ?thesis unfolding l r is_leap_def by simp
  next
    case c1
    with b have n100: "y mod 100 \<noteq> 0" by auto
    with a have "y mod 400 \<noteq> 0" by auto
    with c1 n100 le show ?thesis unfolding l r is_leap_def by simp
  qed
qed

lemma days_before_year_mono: "y1 \<le> y2 \<Longrightarrow> days_before_year y1 \<le> days_before_year y2"
  by (induction y2) (auto simp: days_before_year_Suc le_Suc_eq)

lemma days_before_year_next:
  "y1 < y2 \<Longrightarrow> days_before_year y1 + (if is_leap y1 then 366 else 365) \<le> days_before_year y2"
  using days_before_year_mono [of "Suc y1" y2] by (simp add: days_before_year_Suc)

lemma days_before_month_mono:
  "1 \<le> m1 \<Longrightarrow> m1 \<le> m2 \<Longrightarrow> days_before_month y m1 \<le> days_before_month y m2"
  by (induction m2) (auto simp: days_before_month_Suc le_Suc_eq)

lemma days_before_month_next:
  "1 \<le> m1 \<Longrightarrow> m1 < m2 \<Longrightarrow>
     days_before_month y m1 + days_in_month y m1 \<le> days_before_month y m2"
  using days_before_month_mono [of "Suc m1" m2 y] by (simp add: days_before_month_Suc)

text \<open>An earlier calendar day has a smaller day number.\<close>

lemma day_number_less:
  assumes v1: "1 \<le> m1" "m1 \<le> 12" "1 \<le> d1" "d1 \<le> days_in_month y1 m1"
      and v2: "1 \<le> m2" "m2 \<le> 12" "1 \<le> d2" "d2 \<le> days_in_month y2 m2"
      and lt: "y1 < y2 \<or> (y1 = y2 \<and> (m1 < m2 \<or> (m1 = m2 \<and> d1 < d2)))"
  shows "day_number y1 m1 d1 < day_number y2 m2 d2"
proof -
  have in_year: "days_before_month y1 m1 + (d1 - 1) < (if is_leap y1 then 366 else 365)"
  proof -
    have "days_before_month y1 m1 + days_in_month y1 m1 \<le> days_before_month y1 13"
      using v1 by (intro days_before_month_next) simp_all
    with v1 show ?thesis by (simp add: days_before_month_13 split: if_splits)
  qed
  have "days_before_year y1 + days_before_month y1 m1 + (d1 - 1)
        < days_before_year y2 + days_before_month y2 m2 + (d2 - 1)"
  proof -
    consider (year) "y1 < y2" | (month) "y1 = y2" "m1 < m2" | (day) "y1 = y2" "m1 = m2" "d1 < d2"
      using lt by blast
    then show ?thesis
    proof cases
      case year
      from days_before_year_next [OF year] in_year show ?thesis
        by (simp split: if_splits)
    next
      case month
      from days_before_month_next [OF v1(1) month(2), of y1] v1 month(1) show ?thesis
        by simp
    next
      case day
      with v1 show ?thesis by simp
    qed
  qed
  then show ?thesis by (simp add: day_number_def)
qed

lemma day_number_le_iff:
  assumes v1: "1 \<le> m1" "m1 \<le> 12" "1 \<le> d1" "d1 \<le> days_in_month y1 m1"
      and v2: "1 \<le> m2" "m2 \<le> 12" "1 \<le> d2" "d2 \<le> days_in_month y2 m2"
  shows "day_number y1 m1 d1 \<le> day_number y2 m2 d2
           \<longleftrightarrow> on_or_before (y1, m1, d1) (y2, m2, d2)"
proof
  assume le: "day_number y1 m1 d1 \<le> day_number y2 m2 d2"
  show "on_or_before (y1, m1, d1) (y2, m2, d2)"
  proof (rule ccontr)
    assume "\<not> on_or_before (y1, m1, d1) (y2, m2, d2)"
    then have "y2 < y1 \<or> (y2 = y1 \<and> (m2 < m1 \<or> (m2 = m1 \<and> d2 < d1)))"
      by auto
    from day_number_less [OF v2 v1 this] le show False by simp
  qed
next
  assume ob: "on_or_before (y1, m1, d1) (y2, m2, d2)"
  show "day_number y1 m1 d1 \<le> day_number y2 m2 d2"
  proof (cases "(y1, m1, d1) = (y2, m2, d2)")
    case True
    then show ?thesis by simp
  next
    case False
    with ob have "y1 < y2 \<or> (y1 = y2 \<and> (m1 < m2 \<or> (m1 = m2 \<and> d1 < d2)))"
      by auto
    from day_number_less [OF v1 v2 this] show ?thesis by simp
  qed
qed

text \<open>The comparisons of the date filter, on texts that write calendar dates.\<close>

lemma Date_lt_parseDate:
  assumes "civil a \<noteq> None" "civil b \<noteq> None"
  shows "Date_lt (parseDate a) (parseDate b) \<longleftrightarrow> \<not> date_le b a"
proof -
  from assms obtain y1 m1 d1 y2 m2 d2 where
    a: "civil a = Some (y1, m1, d1)" and b: "civil b = Some (y2, m2, d2)"
    by (metis not_None_eq prod_cases3)
  from civil_valid [OF a] civil_valid [OF b]
  have "day_number y2 m2 d2 \<le> day_number y1 m1 d1 \<longleftrightarrow> on_or_before (y2, m2, d2) (y1, m1, d1)"
    by (intro day_number_le_iff) simp_all
  then show ?thesis
    by (simp add: Date_lt_def parseDate_civil a b date_le_def not_le [symmetric])
qed

lemma Date_gt_parseDate:
  assumes "civil a \<noteq> None" "civil b \<noteq> None"
  shows "Date_gt (parseDate a) (parseDate b) \<longleftrightarrow> \<not> date_le a b"
proof -
  have "Date_gt (parseDate a) (parseDate b) = Date_lt (parseDate b) (parseDate a)"
    by (simp add: Date_gt_def Date_lt_def split: option.splits)
  with Date_lt_parseDate [OF assms(2) assms(1)] show ?thesis by simp
qed

lemma in_period_within_period:
  assumes t: "civil (data t) \<noteq> None"
      and s: "bound_ok startDate"
      and e: "bound_ok endDate"
  shows "in_period (date_bound startDate) (date_bound endDate) t
           \<longleftrightarrow> within_period startDate endDate (data t)"
proof -
  have lo: "(case date_bound startDate of None \<Rightarrow> False
             | Some b \<Rightarrow> Date_lt (parseDate (data t)) b)
            \<longleftrightarrow> \<not> (case startDate of None \<Rightarrow> True | Some s \<Rightarrow> s = [] \<or> date_le s (data t))"
    using s t by (auto simp: date_bound_def bound_ok_def Date_lt_parseDate split: option.splits)
  have hi: "(case date_bound endDate of None \<Rightarrow> False
             | Some b \<Rightarrow> Date_gt (parseDate (data t)) b)
            \<longleftrightarrow> \<not> (case endDate of None \<Rightarrow> True | Some e \<Rightarrow> e = [] \<or> date_le (data t) e)"
    using e t by (auto simp: date_bound_def bound_ok_def Date_gt_parseDate split: option.splits)
  show ?thesis
    unfolding in_period_def within_period_def Let_def lo hi by auto
qed

lemma filteredTransactions_within_period:
  assumes "\<forall>t\<in>set ts. civil (data t) \<noteq> None" "bound_ok startDate" "bound_ok endDate"
  shows "filteredTransactions ts startDate endDate
           = filter (\<lambda>t. within_period startDate endDate (data t)) ts"
  unfolding filteredTransactions_def
  using assms by (intro filter_cong refl in_period_within_period) simp_all

text \<open>
  A transaction whose \<open>data\<close> writes no calendar date has the Invalid Date, every
  comparison with it is false, and the filter keeps the transaction whatever the period.
\<close>

lemma in_period_invalid_date:
  "civil (data t) = None \<Longrightarrow> in_period (date_bound startDate) (date_bound endDate) t"
  by (simp add: in_period_def Let_def parseDate_civil Date_lt_def Date_gt_def
           split: option.splits)




section \<open>Properties of the dashboard statistics\<close>




lemma within_period_None: "within_period None None d"
  by (simp add: within_period_def)



lemma foldl_comissaoPct:
  "foldl (\<lambda>acc c. acc + comissaoPct_or_0 c) a cs =
     a + sum_list (map (\<lambda>c. case comissaoPct c of None \<Rightarrow> 0 | Some p \<Rightarrow> p) cs)"
  by (induction cs arbitrary: a) (simp_all add: comissaoPct_or_0_def split: option.splits)

text \<open>
  Claim C3. For a fixed roster and store and any two periods (each bound present or
  absent), \<open>totalClientes\<close> and \<open>comissaoMediaPct\<close> are the same: the number of
  roster entries, and the arithmetic mean of \<open>comissaoPct\<close> over the roster with an
  absent percentage counted as 0, which is 0 for the empty roster. The two results differ
  at most in \<open>saldoTotal\<close> and \<open>comissaoTotalValor\<close>.
\<close>

theorem roster_figures_ignore_the_period:
  "totalClientes (calculateDashboardStats cs ts s1 e1)
     = totalClientes (calculateDashboardStats cs ts s2 e2)
   \<and> comissaoMediaPct (calculateDashboardStats cs ts s1 e1)
     = comissaoMediaPct (calculateDashboardStats cs ts s2 e2)
   \<and> totalClientes (calculateDashboardStats cs ts s1 e1) = length cs
   \<and> comissaoMediaPct (calculateDashboardStats cs ts s1 e1)
     = (if cs = [] then 0
        else sum_list (map (\<lambda>c. case comissaoPct c of None \<Rightarrow> 0 | Some p \<Rightarrow> p) cs)
               / real (length cs))
   \<and> calculateDashboardStats cs ts s2 e2
     = (calculateDashboardStats cs ts s1 e1)
         \<lparr>saldoTotal := saldoTotal (calculateDashboardStats cs ts s2 e2),
          comissaoTotalValor := comissaoTotalValor (calculateDashboardStats cs ts s2 e2)\<rparr>"
  by (simp add: calculateDashboardStats_def Let_def foldl_comissaoPct)






text \<open>
  The two scenarios of the specification. With the period January 2024 the entrada of
  10 January counts: balance 1000, commission 100. With the period February 2024 it
  does not: balance 0, commission 0. The number of clients (1) and the mean commission
  (10) are the same in both.
\<close>

lemma scenarios_of_the_specification:
  "calculateClientBalance [entrada_c1] ''c1'' = 1000
   \<and> calculateDashboardStats [cliente_c1] [entrada_c1] (Some ''2024-01-01'') (Some ''2024-01-31'')
       = \<lparr>totalClientes = 1, saldoTotal = 1000, comissaoTotalValor = 100, comissaoMediaPct = 10\<rparr>
   \<and> calculateDashboardStats [cliente_c1] [entrada_c1] (Some ''2024-02-01'') (Some ''2024-02-28'')
       = \<lparr>totalClientes = 1, saldoTotal = 0, comissaoTotalValor = 0, comissaoMediaPct = 10\<rparr>"
proof -
  have c: "civil ''2024-01-10'' = Some (2024, 1, 10)" "civil ''2024-01-01'' = Some (2024, 1, 1)"
    "civil ''2024-01-31'' = Some (2024, 1, 31)" "civil ''2024-02-01'' = Some (2024, 2, 1)"
    "civil ''2024-02-28'' = Some (2024, 2, 28)"
    by (simp_all add: civil_def number_def digit_def days_in_month_def is_leap_def)
  have v: "\<forall>t\<in>set [entrada_c1]. civil (data t) \<noteq> None"
    by (simp add: entrada_c1_def c)
  have jan: "filteredTransactions [entrada_c1] (Some ''2024-01-01'') (Some ''2024-01-31'')
               = [entrada_c1]"
    by (subst filteredTransactions_within_period [OF v])
       (simp_all add: bound_ok_def within_period_def date_le_def c entrada_c1_def)
  have fev: "filteredTransactions [entrada_c1] (Some ''2024-02-01'') (Some ''2024-02-28'') = []"
    by (subst filteredTransactions_within_period [OF v])
       (simp_all add: bound_ok_def within_period_def date_le_def c entrada_c1_def)
  have r: "round_double 1000 = 1000"
    by (rule round_double_int) simp_all
  show ?thesis
    by (simp add: calculateClientBalance_def getTransactionsForClient_def balance_step_def
          js_add_def r
          calculateDashboardStats_def Let_def jan fev stats_step_def comissaoPct_or_0_def)
       (simp add: entrada_c1_def cliente_c1_def r)
qed

section \<open>Properties of the store\<close>

text \<open>
  Claim C10. Adding a transaction leaves every stored record unchanged and in place and
  extends the store by exactly one record at the end, whose \<open>clienteId\<close> is the client
  id given, whose \<open>tipo\<close> is the type given, whose \<open>valor\<close> is \<open>parseFloat\<close> of the
  value given and whose \<open>data\<close> is the date given; the new store is what is persisted.
\<close>

theorem addTransaction_appends:
  "allTransactions (addTransaction JSON_stringify show_nat now parseFloat clientId type val date st)
     = allTransactions st
       @ [\<lparr>id_trans = ''trans_'' @ show_nat now, clienteId = clientId, tipo = type,
           valor = parseFloat val, data = date\<rparr>]
   \<and> take (length (allTransactions st))
        (allTransactions
           (addTransaction JSON_stringify show_nat now parseFloat clientId type val date st))
     = allTransactions st
   \<and> length (allTransactions
               (addTransaction JSON_stringify show_nat now parseFloat clientId type val date st))
     = Suc (length (allTransactions st))
   \<and> localStorage (addTransaction JSON_stringify show_nat now parseFloat clientId type val date st)
     = Some (JSON_stringify
         (allTransactions
            (addTransaction JSON_stringify show_nat now parseFloat clientId type val date st)))"
  by (simp add: addTransaction_def saveTransactions_def newTransaction_def)

text \<open>
  Claim C6. When the text of the file parses to a value that is not an array, the import
  shows the failure notice and changes nothing else: the store and the persisted text
  are as before. (A text that does not parse at all is treated the same way.) When it
  parses to an array, the store becomes exactly that array, with nothing kept of the
  earlier store, and the persisted text is the text of the new store.
\<close>

theorem import_checks_array:
  "(JSON_parse result = Some v \<and> \<not> Array_isArray v \<longrightarrow>
      import_onload JSON_parse JSON_stringify result st
        = st\<lparr>alertModal := Some (FalhaNaImportacao NaoArray)\<rparr>
      \<and> allTransactions (import_onload JSON_parse JSON_stringify result st) = allTransactions st
      \<and> localStorage (import_onload JSON_parse JSON_stringify result st) = localStorage st)
   \<and> (JSON_parse result = None \<longrightarrow>
      import_onload JSON_parse JSON_stringify result st
        = st\<lparr>alertModal := Some (FalhaNaImportacao SyntaxError)\<rparr>)
   \<and> (JSON_parse result = Some (JArray ts) \<longrightarrow>
      allTransactions (import_onload JSON_parse JSON_stringify result st) = ts
      \<and> localStorage (import_onload JSON_parse JSON_stringify result st)
          = Some (JSON_stringify ts)
      \<and> alertModal (import_onload JSON_parse JSON_stringify result st)
          = Some ImportacaoConcluida)"
  by (simp add: import_onload_def Array_isArray_def saveTransactions_def split: json.splits)

theorem import_checks_array_witness:
  "JSON_parse_exemplo ''{\"not\":\"an array\"}'' = Some (JObject [(''not'', ''an array'')])
   \<and> \<not> Array_isArray (JObject [(''not'', ''an array'')])
   \<and> import_onload JSON_parse_exemplo JSON_stringify_exemplo ''{\"not\":\"an array\"}''
        estado_exemplo
      = estado_exemplo\<lparr>alertModal := Some (FalhaNaImportacao NaoArray)\<rparr>
   \<and> allTransactions
        (import_onload JSON_parse_exemplo JSON_stringify_exemplo ''{\"not\":\"an array\"}''
           estado_exemplo)
      = [entrada_c1]
   \<and> JSON_parse_exemplo ''[]'' = Some (JArray [])
   \<and> allTransactions
        (import_onload JSON_parse_exemplo JSON_stringify_exemplo ''[]'' estado_exemplo) = []
   \<and> localStorage
        (import_onload JSON_parse_exemplo JSON_stringify_exemplo ''[]'' estado_exemplo)
      = Some ''[]''"
proof -
  have p1: "JSON_parse_exemplo ''{\"not\":\"an array\"}'' = Some (JObject [(''not'', ''an array'')])"
    by (simp add: JSON_parse_exemplo_def)
  have p2: "\<not> Array_isArray (JObject [(''not'', ''an array'')])"
    by (simp add: Array_isArray_def)
  have p3: "JSON_parse_exemplo ''[]'' = Some (JArray [])"
    by (simp add: JSON_parse_exemplo_def)
  have s: "allTransactions estado_exemplo = [entrada_c1]"
    by (simp add: estado_exemplo_def)
  have j: "JSON_stringify_exemplo [] = ''[]''"
    by (simp add: JSON_stringify_exemplo_def)
  show ?thesis
    using import_checks_array [of JSON_parse_exemplo "''{\"not\":\"an array\"}''"
            "JObject [(''not'', ''an array'')]" JSON_stringify_exemplo estado_exemplo "[]"]
          import_checks_array [of JSON_parse_exemplo "''[]''" "JArray []"
            JSON_stringify_exemplo estado_exemplo "[]"]
          p1 p2 p3 s j
    by simp
qed


section \<open>Properties of the search\<close>

text \<open>
  Claim C5, as stated, does not hold: the selectors of the balance filter are not
  mutually exclusive. A balance of 250 satisfies both 'positivo' and '0-500', and the
  client of the example, with that balance, is listed under both.
\<close>

theorem balance_buckets_overlap_counterexample:
  "''positivo'' \<noteq> ''0-500''
   \<and> saldo_case ''positivo'' 250 \<and> saldo_case ''0-500'' 250
   \<and> map saldo (refreshSearchResults [cliente_c1] [entrada_em ''2024-01-10'' 250] [] ''positivo'')
       = [250]
   \<and> map saldo (refreshSearchResults [cliente_c1] [entrada_em ''2024-01-10'' 250] [] ''0-500'')
       = [250]"
proof -
  have r: "round_double 250 = 250"
    by (rule round_double_int) simp_all
  have b: "calculateClientBalance [entrada_em ''2024-01-10'' 250] ''c1'' = 250"
    by (simp add: calculateClientBalance_def getTransactionsForClient_def balance_step_def
          entrada_em_def js_add_def r)
  have w: "saldo (with_saldo [entrada_em ''2024-01-10'' 250] cliente_c1) = 250"
    by (simp add: with_saldo_def client.defs client_saldo.defs cliente_c1_def b)
  show ?thesis
    by (simp add: saldo_case_def refreshSearchResults_def balance_filter_def text_filter_def w)
qed

lemma faixas_exclusive:
  "k1 \<in> set faixas \<Longrightarrow> k2 \<in> set faixas \<Longrightarrow> saldo_case k1 b \<Longrightarrow> saldo_case k2 b \<Longrightarrow> k1 = k2"
  unfolding faixas_def saldo_case_def
  by (auto split: if_splits)

text \<open>
  Claim C5, amended. The selectors '0-500', '501-1000', '1001+', 'negativo' and 'zero'
  are mutually exclusive: no balance satisfies two of them. A balance satisfies '0-500'
  exactly when it is above 0 and at most 500, '501-1000' exactly when it is at least 501
  and at most 1000, '1001+' exactly when it is above 1000, 'negativo' exactly when it is
  below 0, 'zero' exactly when it is 0, and 'positivo' exactly when it is above 0. So
  'positivo' is satisfied by every balance that satisfies one of the three positive
  ranges, and it overlaps each of them: 250 satisfies 'positivo' and '0-500', 750
  satisfies 'positivo' and '501-1000', 2000 satisfies 'positivo' and '1001+'. A balance
  of exactly 500 satisfies '0-500' and not '501-1000'; a balance of exactly 501
  satisfies '501-1000' and not '0-500'; a balance of exactly 0 satisfies 'zero' and none
  of 'positivo', 'negativo', '0-500', '501-1000', '1001+'; a balance strictly between
  500 and 501 satisfies neither '0-500' nor '501-1000'. The filter keeps the clients
  whose balance satisfies the selector, in their order, and 'todos' keeps all; with the
  empty query this is what the search lists.
\<close>

theorem balance_buckets:
  "(k1 \<in> set faixas \<and> k2 \<in> set faixas \<and> saldo_case k1 b \<and> saldo_case k2 b \<longrightarrow> k1 = k2)
   \<and> (saldo_case ''0-500'' b \<longleftrightarrow> 0 < b \<and> b \<le> 500)
   \<and> (saldo_case ''501-1000'' b \<longleftrightarrow> 501 \<le> b \<and> b \<le> 1000)
   \<and> (saldo_case ''1001+'' b \<longleftrightarrow> 1000 < b)
   \<and> (saldo_case ''negativo'' b \<longleftrightarrow> b < 0)
   \<and> (saldo_case ''zero'' b \<longleftrightarrow> b = 0)
   \<and> (saldo_case ''positivo'' b \<longleftrightarrow> 0 < b)
   \<and> (saldo_case ''0-500'' b \<or> saldo_case ''501-1000'' b \<or> saldo_case ''1001+'' b
        \<longrightarrow> saldo_case ''positivo'' b)
   \<and> saldo_case ''positivo'' 250 \<and> saldo_case ''0-500'' 250
   \<and> saldo_case ''positivo'' 750 \<and> saldo_case ''501-1000'' 750
   \<and> saldo_case ''positivo'' 2000 \<and> saldo_case ''1001+'' 2000
   \<and> saldo_case ''0-500'' 500 \<and> \<not> saldo_case ''501-1000'' 500
   \<and> saldo_case ''501-1000'' 501 \<and> \<not> saldo_case ''0-500'' 501
   \<and> saldo_case ''zero'' 0 \<and> \<not> saldo_case ''positivo'' 0 \<and> \<not> saldo_case ''negativo'' 0
   \<and> \<not> saldo_case ''0-500'' 0 \<and> \<not> saldo_case ''501-1000'' 0 \<and> \<not> saldo_case ''1001+'' 0
   \<and> (500 < b \<and> b < 501 \<longrightarrow> \<not> saldo_case ''0-500'' b \<and> \<not> saldo_case ''501-1000'' b)
   \<and> balance_filter k rs = filter (\<lambda>c. k = ''todos'' \<or> saldo_case k (saldo c)) rs
   \<and> refreshSearchResults cs ts [] k
       = filter (\<lambda>c. k = ''todos'' \<or> saldo_case k (saldo c)) (map (with_saldo ts) cs)"
proof -
  have ex: "k1 \<in> set faixas \<and> k2 \<in> set faixas \<and> saldo_case k1 b \<and> saldo_case k2 b \<longrightarrow> k1 = k2"
    using faixas_exclusive by blast
  have bf: "balance_filter k rs = filter (\<lambda>c. k = ''todos'' \<or> saldo_case k (saldo c)) rs"
    by (simp add: balance_filter_def)
  have rf: "refreshSearchResults cs ts [] k
       = filter (\<lambda>c. k = ''todos'' \<or> saldo_case k (saldo c)) (map (with_saldo ts) cs)"
    by (simp add: refreshSearchResults_def text_filter_def balance_filter_def)
  have ranges: "(saldo_case ''0-500'' b \<longleftrightarrow> 0 < b \<and> b \<le> 500)
   \<and> (saldo_case ''501-1000'' b \<longleftrightarrow> 501 \<le> b \<and> b \<le> 1000)
   \<and> (saldo_case ''1001+'' b \<longleftrightarrow> 1000 < b)
   \<and> (saldo_case ''negativo'' b \<longleftrightarrow> b < 0)
   \<and> (saldo_case ''zero'' b \<longleftrightarrow> b = 0)
   \<and> (saldo_case ''positivo'' b \<longleftrightarrow> 0 < b)"
    by (simp add: saldo_case_def)
  have over: "saldo_case ''0-500'' b \<or> saldo_case ''501-1000'' b \<or> saldo_case ''1001+'' b
        \<longrightarrow> saldo_case ''positivo'' b"
    by (auto simp: saldo_case_def)
  have points: "saldo_case ''positivo'' 250 \<and> saldo_case ''0-500'' 250
   \<and> saldo_case ''positivo'' 750 \<and> saldo_case ''501-1000'' 750
   \<and> saldo_case ''positivo'' 2000 \<and> saldo_case ''1001+'' 2000
   \<and> saldo_case ''0-500'' 500 \<and> \<not> saldo_case ''501-1000'' 500
   \<and> saldo_case ''501-1000'' 501 \<and> \<not> saldo_case ''0-500'' 501
   \<and> saldo_case ''zero'' 0 \<and> \<not> saldo_case ''positivo'' 0 \<and> \<not> saldo_case ''negativo'' 0
   \<and> \<not> saldo_case ''0-500'' 0 \<and> \<not> saldo_case ''501-1000'' 0 \<and> \<not> saldo_case ''1001+'' 0"
    by (simp add: saldo_case_def)
  have gap: "500 < b \<and> b < 501 \<longrightarrow> \<not> saldo_case ''0-500'' b \<and> \<not> saldo_case ''501-1000'' b"
    by (simp add: saldo_case_def)
  from ex ranges over points gap bf rf show ?thesis by blast
qed

text \<open>
  A balance of 250 satisfies '0-500' and, of the five ranges, nothing else, and it
  satisfies 'positivo'; a balance of 500.5 lies strictly between 500 and 501 and
  satisfies neither '0-500' nor '501-1000'.
\<close>

theorem balance_buckets_witness:
  "''0-500'' \<in> set faixas \<and> saldo_case ''0-500'' 250
   \<and> ''501-1000'' \<in> set faixas \<and> \<not> saldo_case ''501-1000'' 250
   \<and> saldo_case ''positivo'' 250
   \<and> (500::real) < 500.5 \<and> (500.5::real) < 501
   \<and> \<not> saldo_case ''0-500'' 500.5 \<and> \<not> saldo_case ''501-1000'' 500.5"
proof -
  have a: "''0-500'' \<in> set faixas" "''501-1000'' \<in> set faixas"
    by (simp_all add: faixas_def)
  have b: "saldo_case ''0-500'' 250"
    by (simp add: saldo_case_def)
  have c: "(500::real) < 500.5" "(500.5::real) < 501"
    by simp_all
  from balance_buckets [of "''0-500''" "''501-1000''" 250]
  have "''0-500'' \<in> set faixas \<and> ''501-1000'' \<in> set faixas
          \<and> saldo_case ''0-500'' 250 \<and> saldo_case ''501-1000'' 250
        \<longrightarrow> ''0-500'' = ''501-1000''"
    by blast
  with a b have d: "\<not> saldo_case ''501-1000'' 250"
    by auto
  from balance_buckets [of _ _ 250]
  have "saldo_case ''0-500'' 250 \<or> saldo_case ''501-1000'' 250 \<or> saldo_case ''1001+'' 250
        \<longrightarrow> saldo_case ''positivo'' 250"
    by blast
  with b have p: "saldo_case ''positivo'' 250"
    by blast
  from balance_buckets [of _ _ "500.5"]
  have "500 < (500.5::real) \<and> (500.5::real) < 501
        \<longrightarrow> \<not> saldo_case ''0-500'' 500.5 \<and> \<not> saldo_case ''501-1000'' 500.5"
    by blast
  with c have e: "\<not> saldo_case ''0-500'' 500.5 \<and> \<not> saldo_case ''501-1000'' 500.5"
    by blast
  from a b c d p e show ?thesis by blast
qed

text \<open>Characters and their codes.\<close>

lemma eq_char_of_iff: "c = char_of (n::nat) \<longleftrightarrow> of_char c = n mod 256"
  by (metis of_char_of char_of_char char_of_mod_256)

lemma capital_code_set:
  "capital_code n \<longleftrightarrow> n \<in> {65 ..< 91} \<union> {192 ..< 215} \<union> {216 ..< 223}"
  unfolding capital_code_def by (simp only: Un_iff atLeastLessThan_iff) arith

lemma capital_code_less: "capital_code n \<Longrightarrow> n + 32 < 256"
  unfolding capital_code_def by arith

lemma capital_code_shift: "capital_code n \<Longrightarrow> \<not> capital_code (n + 32)"
  unfolding capital_code_def by arith

text \<open>
  The table of the letters, by their codes: the capital with the code \<open>n\<close> has the
  small form with the code \<open>n + 32\<close>, and the capitals of the table are the codes
  that the conversion of the runtime changes.
\<close>

lemma letter_pairs_codes:
  "letter_pairs = map (\<lambda>n. (char_of n, char_of (n + 32)))
     ([65 ..< 91] @ [192 ..< 215] @ [216 ..< 223 :: nat])"
  by (simp add: letter_pairs_def capital_letters_def small_letters_def upt_conv_Cons
        eq_char_of_iff)

lemma in_letter_pairs:
  "(a, b) \<in> set letter_pairs \<longleftrightarrow>
     capital_code (of_char a) \<and> (of_char b :: nat) = of_char a + 32"
proof -
  have "(a, b) \<in> set letter_pairs \<longleftrightarrow>
     (\<exists>n \<in> {65 ..< 91} \<union> {192 ..< 215} \<union> {216 ..< 223 :: nat}.
        (a, b) = (char_of n, char_of (n + 32)))"
    by (simp only: letter_pairs_codes set_map set_append set_upt image_iff Un_assoc)
  also have "\<dots> \<longleftrightarrow> (\<exists>n. capital_code n \<and> a = char_of n \<and> b = char_of (n + 32))"
    by (simp only: capital_code_set Bex_def prod.inject)
  also have "\<dots> \<longleftrightarrow> capital_code (of_char a) \<and> (of_char b :: nat) = of_char a + 32"
  proof
    assume "\<exists>n. capital_code n \<and> a = char_of n \<and> b = char_of (n + 32)"
    then obtain n where c: "capital_code n" and a: "a = char_of n" and b: "b = char_of (n + 32)"
      by blast
    from capital_code_less [OF c] have l: "n + 32 < 256" .
    then have "n < 256" by simp
    then have an: "(of_char a :: nat) = n" unfolding a by simp
    from l have "(of_char b :: nat) = n + 32" unfolding b by simp
    with c an show "capital_code (of_char a) \<and> (of_char b :: nat) = of_char a + 32"
      by simp
  next
    assume h: "capital_code (of_char a) \<and> (of_char b :: nat) = of_char a + 32"
    then have "b = char_of ((of_char a :: nat) + 32)"
      by (metis char_of_char)
    moreover have "a = char_of (of_char a :: nat)" by simp
    ultimately show "\<exists>n. capital_code n \<and> a = char_of n \<and> b = char_of (n + 32)"
      using h by blast
  qed
  finally show ?thesis .
qed

lemma of_char_toLowerCase_char:
  "(of_char (toLowerCase_char a) :: nat) =
     (if capital_code (of_char a) then of_char a + 32 else of_char a)"
  by (simp add: toLowerCase_char_def Let_def capital_code_less)

text \<open>
  The conversion of the runtime maps two characters to the same one exactly when they
  are the same letter in the table.
\<close>

lemma toLowerCase_char_eq_iff:
  "toLowerCase_char a = toLowerCase_char b \<longleftrightarrow> same_letter a b"
proof -
  define m :: nat where "m = of_char a"
  define n :: nat where "n = of_char b"
  have l: "toLowerCase_char a = toLowerCase_char b
        \<longleftrightarrow> (if capital_code m then m + 32 else m) = (if capital_code n then n + 32 else n)"
    unfolding m_def n_def
    by (simp only: of_char_eq_iff [symmetric, where ?'a = nat] of_char_toLowerCase_char)
  have r: "same_letter a b
        \<longleftrightarrow> m = n \<or> (capital_code m \<and> n = m + 32) \<or> (capital_code n \<and> m = n + 32)"
    unfolding m_def n_def same_letter_def in_letter_pairs
    by (simp only: of_char_eq_iff)
  show ?thesis
    unfolding l r
    using capital_code_shift [of m] capital_code_shift [of n]
    by (cases "capital_code m"; cases "capital_code n") auto
qed

lemma includes_str_sublist: "includes_str s q \<longleftrightarrow> sublist q s"
  by (induction s) (simp_all add: sublist_Cons_right)

lemma set_segments: "u \<in> set (segments s) \<longleftrightarrow> sublist u s"
  by (auto simp: segments_def sublist_altdef')

lemma same_letter_all2: "list_all2 same_letter u q \<longleftrightarrow> toLowerCase u = toLowerCase q"
  by (induction u q rule: list_induct2')
     (simp_all add: toLowerCase_char_eq_iff [symmetric] toLowerCase_def)

lemma sublist_map_iff:
  "sublist (map f q) (map f s) \<longleftrightarrow> (\<exists>u. sublist u s \<and> map f u = map f q)"
proof
  assume "sublist (map f q) (map f s)"
  then obtain ps ss where "map f s = ps @ map f q @ ss"
    by (auto simp: sublist_def)
  then obtain a u b where "s = a @ u @ b" "map f u = map f q"
    by (auto simp: map_eq_append_conv append_eq_map_conv)
  then show "\<exists>u. sublist u s \<and> map f u = map f q"
    by (auto simp: sublist_def)
next
  assume "\<exists>u. sublist u s \<and> map f u = map f q"
  then obtain u where "sublist u s" "map f u = map f q" by blast
  then show "sublist (map f q) (map f s)"
    by (metis map_mono_sublist)
qed

text \<open>
  The test of the source, \<open>s.toLowerCase().includes(q.toLowerCase())\<close>, is the
  case-insensitive containment of the specification.
\<close>

lemma includes_lower_iff:
  "includes_str (toLowerCase s) (toLowerCase q) \<longleftrightarrow> contains_ignoring_case s q"
  unfolding includes_str_sublist contains_ignoring_case_def same_letter_all2
  by (auto simp: toLowerCase_def sublist_map_iff set_segments)

text \<open>
  Claim C8. The text filter keeps exactly the clients whose \<open>nome\<close>, \<open>empresa\<close> or
  \<open>id\<close> contains the query as a case-insensitive substring, one field being enough,
  in the order of the roster. The empty query keeps every client (every text contains
  the empty query, and the source skips the filter). A query that is a client's name up
  to the case of its letters keeps that client. With the balance filter 'todos' the text
  filter alone decides what is listed. Case is that of the letters of Latin-1, the
  accented ones included.
\<close>

theorem text_filter_case_insensitive:
  "text_filter query rs =
     filter (\<lambda>c. contains_ignoring_case (nome c) query
                \<or> contains_ignoring_case (empresa c) query
                \<or> contains_ignoring_case (id_client c) query) rs
   \<and> text_filter [] rs = rs
   \<and> (c \<in> set rs \<and> list_all2 same_letter query (nome c) \<longrightarrow> c \<in> set (text_filter query rs))
   \<and> refreshSearchResults cs ts query ''todos'' = text_filter query (map (with_saldo ts) cs)"
proof -
  have nil: "\<And>s. contains_ignoring_case s []"
    by (simp add: contains_ignoring_case_def set_segments)
  have eq: "text_filter query rs =
     filter (\<lambda>c. contains_ignoring_case (nome c) query
                \<or> contains_ignoring_case (empresa c) query
                \<or> contains_ignoring_case (id_client c) query) rs"
  proof (cases "query = []")
    case True
    then show ?thesis by (simp add: text_filter_def nil)
  next
    case False
    then show ?thesis by (simp add: text_filter_def Let_def includes_lower_iff)
  qed
  have e: "text_filter [] rs = rs"
    by (simp add: text_filter_def)
  have whole: "\<And>s. list_all2 same_letter query s \<Longrightarrow> contains_ignoring_case s query"
  proof -
    fix s
    assume "list_all2 same_letter query s"
    then have "toLowerCase s = toLowerCase query"
      by (simp add: same_letter_all2)
    then have "list_all2 same_letter s query"
      by (simp add: same_letter_all2)
    moreover have "s \<in> set (segments s)"
      by (simp add: set_segments)
    ultimately show "contains_ignoring_case s query"
      unfolding contains_ignoring_case_def by blast
  qed
  have v: "c \<in> set rs \<and> list_all2 same_letter query (nome c) \<longrightarrow> c \<in> set (text_filter query rs)"
    unfolding eq using whole by simp
  have t: "refreshSearchResults cs ts query ''todos'' = text_filter query (map (with_saldo ts) cs)"
    by (simp add: refreshSearchResults_def balance_filter_def)
  from eq e v t show ?thesis by blast
qed

text \<open>
  The client 'JOAO PEREIRA', whose name is written in capitals with A tilde, is found by
  the query that writes the name in small letters, with a tilde; the client 'Maria
  Silva' is not.
\<close>

theorem text_filter_case_insensitive_witness:
  "with_saldo [entrada_c1] cliente_c2
       \<in> set [with_saldo [entrada_c1] cliente_c1, with_saldo [entrada_c1] cliente_c2]
   \<and> list_all2 same_letter joao_pereira (nome (with_saldo [entrada_c1] cliente_c2))
   \<and> with_saldo [entrada_c1] cliente_c2
       \<in> set (text_filter joao_pereira
                [with_saldo [entrada_c1] cliente_c1, with_saldo [entrada_c1] cliente_c2])
   \<and> nome (with_saldo [entrada_c1] cliente_c2) \<noteq> joao_pereira"
proof -
  have n: "nome (with_saldo [entrada_c1] cliente_c2) = ''JO'' @ [CHR 0xC3] @ ''O PEREIRA''"
    by (simp add: with_saldo_def cliente_c2_def client.defs)
  have a: "with_saldo [entrada_c1] cliente_c2
       \<in> set [with_saldo [entrada_c1] cliente_c1, with_saldo [entrada_c1] cliente_c2]"
    by simp
  have b: "list_all2 same_letter joao_pereira (nome (with_saldo [entrada_c1] cliente_c2))"
    unfolding n joao_pereira_def
    by (simp add: same_letter_def in_letter_pairs capital_code_def)
  have d: "nome (with_saldo [entrada_c1] cliente_c2) \<noteq> joao_pereira"
    unfolding n joao_pereira_def by simp
  from text_filter_case_insensitive
         [of joao_pereira
             "[with_saldo [entrada_c1] cliente_c1, with_saldo [entrada_c1] cliente_c2]"
             "with_saldo [entrada_c1] cliente_c2"]
  have "with_saldo [entrada_c1] cliente_c2
          \<in> set [with_saldo [entrada_c1] cliente_c1, with_saldo [entrada_c1] cliente_c2]
        \<and> list_all2 same_letter joao_pereira (nome (with_saldo [entrada_c1] cliente_c2))
        \<longrightarrow> with_saldo [entrada_c1] cliente_c2
          \<in> set (text_filter joao_pereira
                   [with_saldo [entrada_c1] cliente_c1, with_saldo [entrada_c1] cliente_c2])"
    by blast
  with a b have "with_saldo [entrada_c1] cliente_c2
          \<in> set (text_filter joao_pereira
                   [with_saldo [entrada_c1] cliente_c1, with_saldo [entrada_c1] cliente_c2])"
    by blast
  with a b d show ?thesis by blast
qed

section \<open>Properties of the list of recent transactions\<close>

lemma set_insert_sorted: "set (insert_sorted cmp x ys) = insert x (set ys)"
  by (induction ys) auto

lemma mset_insert_sorted: "mset (insert_sorted cmp x ys) = add_mset x (mset ys)"
  by (induction ys) auto

lemma mset_Array_sort: "mset (Array_sort cmp xs) = mset xs"
  by (induction xs) (simp_all add: Array_sort_def mset_insert_sorted)

lemma set_Array_sort: "set (Array_sort cmp xs) = set xs"
  by (metis mset_Array_sort set_mset_mset)

lemma Array_sort_Cons: "Array_sort cmp (x # xs) = insert_sorted cmp x (Array_sort cmp xs)"
  by (simp add: Array_sort_def)

lemma date_le_total: "civil a \<noteq> None \<Longrightarrow> civil b \<noteq> None \<Longrightarrow> date_le a b \<or> date_le b a"
  by (auto simp: date_le_def)

lemma date_le_trans: "date_le a b \<Longrightarrow> date_le b c \<Longrightarrow> date_le a c"
  by (auto simp: date_le_def split: option.splits)

lemma mais_recentes_primeiro_le:
  assumes "civil (data a) \<noteq> None" "civil (data b) \<noteq> None"
  shows "(case mais_recentes_primeiro a b of None \<Rightarrow> True | Some v \<Rightarrow> v \<le> 0)
           \<longleftrightarrow> date_le (data b) (data a)"
proof -
  from assms obtain y1 m1 d1 y2 m2 d2 where
    a: "civil (data a) = Some (y1, m1, d1)" and b: "civil (data b) = Some (y2, m2, d2)"
    by (metis not_None_eq prod_cases3)
  from civil_valid [OF a] civil_valid [OF b]
  have "day_number y2 m2 d2 \<le> day_number y1 m1 d1 \<longleftrightarrow> on_or_before (y2, m2, d2) (y1, m1, d1)"
    by (intro day_number_le_iff) simp_all
  then show ?thesis
    by (simp add: mais_recentes_primeiro_def Date_minus_def parseDate_civil a b date_le_def)
qed

lemma sorted_insert_sorted:
  assumes "civil (data x) \<noteq> None" "\<forall>t\<in>set ys. civil (data t) \<noteq> None"
      and "sorted_wrt (\<lambda>a b. date_le (data b) (data a)) ys"
  shows "sorted_wrt (\<lambda>a b. date_le (data b) (data a)) (insert_sorted mais_recentes_primeiro x ys)"
  using assms
proof (induction ys)
  case Nil
  then show ?case by simp
next
  case (Cons y ys)
  show ?case
  proof (cases "date_le (data y) (data x)")
    case True
    with Cons.prems have "\<forall>z\<in>set ys. date_le (data z) (data x)"
      by (auto intro: date_le_trans)
    with True Cons.prems show ?thesis
      by (simp add: mais_recentes_primeiro_le)
  next
    case False
    with Cons.prems have xy: "date_le (data x) (data y)"
      using date_le_total [of "data x" "data y"] by simp
    from Cons have "sorted_wrt (\<lambda>a b. date_le (data b) (data a))
                      (insert_sorted mais_recentes_primeiro x ys)"
      by simp
    with False xy Cons.prems show ?thesis
      by (simp add: mais_recentes_primeiro_le set_insert_sorted)
  qed
qed

lemma Array_sort_Nil: "Array_sort cmp [] = []"
  by (simp add: Array_sort_def)

lemma sorted_Array_sort:
  assumes "\<forall>t\<in>set xs. civil (data t) \<noteq> None"
  shows "sorted_wrt (\<lambda>a b. date_le (data b) (data a)) (Array_sort mais_recentes_primeiro xs)"
  using assms
proof (induction xs)
  case Nil
  show ?case by (simp add: Array_sort_Nil)
next
  case (Cons x xs)
  then show ?case
    by (simp add: Array_sort_Cons sorted_insert_sorted set_Array_sort)
qed

lemma recent_of_kind:
  assumes v: "\<forall>t\<in>set ts. clienteId t = cid \<longrightarrow> civil (data t) \<noteq> None"
  shows "sorted_wrt (\<lambda>a b. date_le (data b) (data a))
           (take 4 (filter (\<lambda>t. tipo t = k) (clientTransactions ts cid)))
       \<and> length (take 4 (filter (\<lambda>t. tipo t = k) (clientTransactions ts cid)))
           = min 4 (length (filter (\<lambda>t. clienteId t = cid \<and> tipo t = k) ts))
       \<and> (\<exists>rest. mset (take 4 (filter (\<lambda>t. tipo t = k) (clientTransactions ts cid)) @ rest)
                     = mset (filter (\<lambda>t. clienteId t = cid \<and> tipo t = k) ts)
                 \<and> sorted_wrt (\<lambda>a b. date_le (data b) (data a))
                     (take 4 (filter (\<lambda>t. tipo t = k) (clientTransactions ts cid)) @ rest))"
proof -
  define full where "full = filter (\<lambda>t. tipo t = k) (clientTransactions ts cid)"
  have "\<forall>t\<in>set (getTransactionsForClient ts cid). civil (data t) \<noteq> None"
    using v by (simp add: getTransactionsForClient_def)
  then have "sorted_wrt (\<lambda>a b. date_le (data b) (data a)) (clientTransactions ts cid)"
    unfolding clientTransactions_def by (rule sorted_Array_sort)
  then have sorted_full: "sorted_wrt (\<lambda>a b. date_le (data b) (data a)) full"
    unfolding full_def by (rule sorted_wrt_filter)
  have mset_full: "mset full = mset (filter (\<lambda>t. clienteId t = cid \<and> tipo t = k) ts)"
  proof -
    have "mset full = mset (filter (\<lambda>t. tipo t = k) (getTransactionsForClient ts cid))"
      by (simp add: full_def clientTransactions_def mset_Array_sort)
    then show ?thesis
      by (simp only: getTransactionsForClient_filter)
  qed
  then have len: "length full = length (filter (\<lambda>t. clienteId t = cid \<and> tipo t = k) ts)"
    by (metis size_mset)
  have 1: "sorted_wrt (\<lambda>a b. date_le (data b) (data a)) (take 4 full)"
    using sorted_full by (rule sorted_wrt_take)
  have 2: "length (take 4 full) = min 4 (length (filter (\<lambda>t. clienteId t = cid \<and> tipo t = k) ts))"
    by (simp add: len min.commute)
  have 3: "mset (take 4 full @ drop 4 full) = mset (filter (\<lambda>t. clienteId t = cid \<and> tipo t = k) ts)
           \<and> sorted_wrt (\<lambda>a b. date_le (data b) (data a)) (take 4 full @ drop 4 full)"
    using sorted_full mset_full by simp
  from 1 2 3 show ?thesis
    unfolding full_def by blast
qed

text \<open>
  Claim C9. For every client and every store in which the client's transactions carry
  calendar dates, the card of the client lists two sequences, the client's entradas and
  the client's saidas, each sorted by \<open>data\<close> descending (most recent first) and cut
  to at most 4 entries: each sequence is the first four of a list that holds exactly the
  client's transactions of that kind and is sorted by date descending. The dates are
  compared through \<open>parseDate\<close>, as in the date filter of the dashboard, which is the
  calendar order.
\<close>

theorem recent_transactions_sorted_and_truncated:
  assumes "\<forall>t\<in>set ts. clienteId t = cid \<longrightarrow> civil (data t) \<noteq> None"
  shows "sorted_wrt (\<lambda>a b. date_le (data b) (data a)) (entradas ts cid)
       \<and> sorted_wrt (\<lambda>a b. date_le (data b) (data a)) (saidas ts cid)
       \<and> length (entradas ts cid) \<le> 4 \<and> length (saidas ts cid) \<le> 4
       \<and> length (entradas ts cid)
           = min 4 (length (filter (\<lambda>t. clienteId t = cid \<and> tipo t = ''entrada'') ts))
       \<and> length (saidas ts cid)
           = min 4 (length (filter (\<lambda>t. clienteId t = cid \<and> tipo t = ''saida'') ts))
       \<and> (\<exists>rest. mset (entradas ts cid @ rest)
                     = mset (filter (\<lambda>t. clienteId t = cid \<and> tipo t = ''entrada'') ts)
                 \<and> sorted_wrt (\<lambda>a b. date_le (data b) (data a)) (entradas ts cid @ rest))
       \<and> (\<exists>rest. mset (saidas ts cid @ rest)
                     = mset (filter (\<lambda>t. clienteId t = cid \<and> tipo t = ''saida'') ts)
                 \<and> sorted_wrt (\<lambda>a b. date_le (data b) (data a)) (saidas ts cid @ rest))"
  using recent_of_kind [OF assms, of "''entrada''"] recent_of_kind [OF assms, of "''saida''"]
  unfolding entradas_def saidas_def
  by simp

lemma civil_exemplos:
  "civil ''2024-01-05'' = Some (2024, 1, 5)"
  "civil ''2024-03-01'' = Some (2024, 3, 1)"
  "civil ''2024-02-01'' = Some (2024, 2, 1)"
  "civil ''2023-12-31'' = Some (2023, 12, 31)"
  "civil ''2024-02-10'' = Some (2024, 2, 10)"
  "civil ''2024-01-20'' = Some (2024, 1, 20)"
  by (simp_all add: civil_def number_def digit_def days_in_month_def is_leap_def)

text \<open>
  Of the five entradas of the example the four most recent are listed, most recent first;
  the entrada of 31 December 2023 is cut off.
\<close>

theorem recent_transactions_sorted_and_truncated_witness:
  "list_all (\<lambda>t. civil (data t) \<noteq> None) transacoes_exemplo
   \<and> map data (entradas transacoes_exemplo ''c1'')
       = [''2024-03-01'', ''2024-02-10'', ''2024-01-20'', ''2024-01-05'']
   \<and> map data (saidas transacoes_exemplo ''c1'') = [''2024-02-01'']
   \<and> sorted_wrt (\<lambda>a b. date_le (data b) (data a)) (entradas transacoes_exemplo ''c1'')
   \<and> length (entradas transacoes_exemplo ''c1'') = 4"
proof -
  have v: "list_all (\<lambda>t. civil (data t) \<noteq> None) transacoes_exemplo"
    by (simp add: transacoes_exemplo_def entrada_em_def saida_em_def civil_exemplos)
  then have h: "\<forall>t\<in>set transacoes_exemplo. clienteId t = ''c1'' \<longrightarrow> civil (data t) \<noteq> None"
    by (simp add: list_all_iff)
  have e: "map data (entradas transacoes_exemplo ''c1'')
       = [''2024-03-01'', ''2024-02-10'', ''2024-01-20'', ''2024-01-05'']"
    by (simp add: entradas_def clientTransactions_def getTransactionsForClient_def
          Array_sort_def transacoes_exemplo_def entrada_em_def saida_em_def
          mais_recentes_primeiro_le civil_exemplos date_le_def)
  have s: "map data (saidas transacoes_exemplo ''c1'') = [''2024-02-01'']"
    by (simp add: saidas_def clientTransactions_def getTransactionsForClient_def
          Array_sort_def transacoes_exemplo_def entrada_em_def saida_em_def
          mais_recentes_primeiro_le civil_exemplos date_le_def)
  have n: "length (filter (\<lambda>t. clienteId t = ''c1'' \<and> tipo t = ''entrada'') transacoes_exemplo) = 5"
    by (simp add: transacoes_exemplo_def entrada_em_def saida_em_def)
  from recent_transactions_sorted_and_truncated [OF h] n
  have "sorted_wrt (\<lambda>a b. date_le (data b) (data a)) (entradas transacoes_exemplo ''c1'')
        \<and> length (entradas transacoes_exemplo ''c1'') = 4"
    by simp
  with v e s show ?thesis by blast
qed

end
